theory Spec2Isabelle
  imports Main "HOL-Library.Word"
begin

unbundle bit_operations_syntax

section \<open>drppc.h: status codes\<close>

text \<open>
  The enumeration \<^verbatim>\<open>DRPPC_ERRNUM\<close> of \<^verbatim>\<open>drppc.h\<close>. Each enumerator is a
  constructor; \<open>errnum_value\<close> gives the integer the C compiler assigns to it.
  \<^verbatim>\<open>DRPPC_TERMINATOR\<close> carries no initialiser and follows \<^verbatim>\<open>DRPPC_OKAY = 0\<close>,
  so it is the previous enumerator plus one.
\<close>

datatype DRPPC_ERRNUM =
    DRPPC_ERROR
  | DRPPC_INVALID_CONFIG
  | DRPPC_BAD_PC
  | DRPPC_OUT_OF_MEMORY
  | DRPPC_COMPILE_ERROR
  | DRPPC_RUNTIME_ERROR
  | DRPPC_OKAY
  | DRPPC_TERMINATOR

fun errnum_value :: "DRPPC_ERRNUM \<Rightarrow> int" where
  "errnum_value DRPPC_ERROR = -1"
| "errnum_value DRPPC_INVALID_CONFIG = -2"
| "errnum_value DRPPC_BAD_PC = -3"
| "errnum_value DRPPC_OUT_OF_MEMORY = -4"
| "errnum_value DRPPC_COMPILE_ERROR = -5"
| "errnum_value DRPPC_RUNTIME_ERROR = -6"
| "errnum_value DRPPC_OKAY = 0"
| "errnum_value DRPPC_TERMINATOR = 0 + 1"

text \<open>The codes listed under "Error conditions" together with \<^verbatim>\<open>DRPPC_OKAY\<close>:
  the ones an entry point hands back to the host.\<close>

definition host_visible :: "DRPPC_ERRNUM list" where
  "host_visible = [DRPPC_ERROR, DRPPC_INVALID_CONFIG, DRPPC_BAD_PC, DRPPC_OUT_OF_MEMORY,
     DRPPC_COMPILE_ERROR, DRPPC_RUNTIME_ERROR, DRPPC_OKAY]"

text \<open>The enumerators listed under "Non-error conditions used internally".\<close>

definition internal_only :: "DRPPC_ERRNUM list" where
  "internal_only = [DRPPC_TERMINATOR]"

section \<open>drppc.h: memory regions\<close>

text \<open>
  A C pointer is either \<^verbatim>\<open>NULL\<close> or an address. The casts \<^verbatim>\<open>(UINT8 *)\<close> and
  \<^verbatim>\<open>(void *)\<close> of the region macros keep the address and so are the identity here.
\<close>

datatype pointer = NULL | Addr nat

text \<open>\<^verbatim>\<open>struct drppc_region\<close>. The field \<^verbatim>\<open>end\<close> is spelled \<open>end_r\<close> and
  \<^verbatim>\<open>start\<close> is spelled \<open>start_r\<close>.\<close>

record DRPPC_REGION =
  start_r :: "32 word"
  end_r :: "32 word"
  ptr :: pointer
  handler :: pointer
  volatile_ptr :: bool
  big_endian :: bool

text \<open>\<^verbatim>\<open>#define DRPPC_REGION_BUF_BE(start, end, buf, vol)
   { start, end, (UINT8 *)(buf), NULL, vol, TRUE }\<close>\<close>

definition DRPPC_REGION_BUF_BE :: "32 word \<Rightarrow> 32 word \<Rightarrow> pointer \<Rightarrow> bool \<Rightarrow> DRPPC_REGION" where
  "DRPPC_REGION_BUF_BE start end' buf vol =
     \<lparr>start_r = start, end_r = end', ptr = buf, handler = NULL,
      volatile_ptr = vol, big_endian = True\<rparr>"

text \<open>
  \<^verbatim>\<open>#define DRPPC_REGION_BUF_LE(start, end, buf, flags)
   { start, end, (UINT8 *)(buf), NULL, vol, FALSE }\<close>

  The fourth macro parameter is named \<^verbatim>\<open>flags\<close> and does not occur in the
  replacement list. The token \<^verbatim>\<open>vol\<close> of the replacement list is therefore not
  substituted: after expansion it is the identifier \<^verbatim>\<open>vol\<close> of the scope in which
  the macro is used. The model takes the value of that identifier as the extra first
  argument \<open>scope_vol\<close>; the argument \<open>flags\<close> is dropped, as the preprocessor drops it.
\<close>

definition DRPPC_REGION_BUF_LE ::
    "bool \<Rightarrow> 32 word \<Rightarrow> 32 word \<Rightarrow> pointer \<Rightarrow> bool \<Rightarrow> DRPPC_REGION" where
  "DRPPC_REGION_BUF_LE scope_vol start end' buf flags =
     \<lparr>start_r = start, end_r = end', ptr = buf, handler = NULL,
      volatile_ptr = scope_vol, big_endian = False\<rparr>"

text \<open>\<^verbatim>\<open>#define DRPPC_REGION_HANDLER(start, end, handler)
   { start, end, NULL, (void *)(handler), FALSE, FALSE }\<close>\<close>

definition DRPPC_REGION_HANDLER :: "32 word \<Rightarrow> 32 word \<Rightarrow> pointer \<Rightarrow> DRPPC_REGION" where
  "DRPPC_REGION_HANDLER start end' h =
     \<lparr>start_r = start, end_r = end', ptr = NULL, handler = h,
      volatile_ptr = False, big_endian = False\<rparr>"

text \<open>\<^verbatim>\<open>#define DRPPC_REGION_END { 0, 0, NULL, NULL, FALSE, FALSE }\<close>\<close>

definition DRPPC_REGION_END :: DRPPC_REGION where
  "DRPPC_REGION_END =
     \<lparr>start_r = 0, end_r = 0, ptr = NULL, handler = NULL,
      volatile_ptr = False, big_endian = False\<rparr>"

text \<open>\<^verbatim>\<open>#define DRPPC_REGION_PLACEHOLDER
   { 0xFFFFFFFF, 0xFFFFFFFF, NULL, NULL, FALSE, FALSE }\<close>\<close>

definition DRPPC_REGION_PLACEHOLDER :: DRPPC_REGION where
  "DRPPC_REGION_PLACEHOLDER =
     \<lparr>start_r = 0xFFFFFFFF, end_r = 0xFFFFFFFF, ptr = NULL, handler = NULL,
      volatile_ptr = False, big_endian = False\<rparr>"

text \<open>The \<^verbatim>\<open>DRPPC_SET_REGION_*\<close> macros assign the six fields of the region
  variable \<^verbatim>\<open>r\<close> one after the other; the model returns the updated region.\<close>

definition DRPPC_SET_REGION_BUF_BE ::
    "DRPPC_REGION \<Rightarrow> 32 word \<Rightarrow> 32 word \<Rightarrow> pointer \<Rightarrow> bool \<Rightarrow> DRPPC_REGION" where
  "DRPPC_SET_REGION_BUF_BE r start' end' buf' vol' =
     r\<lparr>start_r := start', end_r := end', ptr := buf', handler := NULL,
       volatile_ptr := vol', big_endian := True\<rparr>"

definition DRPPC_SET_REGION_BUF_LE ::
    "DRPPC_REGION \<Rightarrow> 32 word \<Rightarrow> 32 word \<Rightarrow> pointer \<Rightarrow> bool \<Rightarrow> DRPPC_REGION" where
  "DRPPC_SET_REGION_BUF_LE r start' end' buf' vol' =
     r\<lparr>start_r := start', end_r := end', ptr := buf', handler := NULL,
       volatile_ptr := vol', big_endian := False\<rparr>"

definition DRPPC_SET_REGION_HANDLER ::
    "DRPPC_REGION \<Rightarrow> 32 word \<Rightarrow> 32 word \<Rightarrow> pointer \<Rightarrow> DRPPC_REGION" where
  "DRPPC_SET_REGION_HANDLER r start' end' h' =
     r\<lparr>start_r := start', end_r := end', ptr := NULL, handler := h',
       volatile_ptr := False, big_endian := False\<rparr>"

text \<open>At most one of the two access fields of a region is set.\<close>

definition at_most_one_access :: "DRPPC_REGION \<Rightarrow> bool" where
  "at_most_one_access r = (ptr r = NULL \<or> handler r = NULL)"

section \<open>r3dgl.c: address translation\<close>

text \<open>
  The four file-scope buffer pointers \<^verbatim>\<open>culling_ram_8c\<close>, \<^verbatim>\<open>culling_ram_8e\<close>,
  \<^verbatim>\<open>polygon_ram\<close> and \<^verbatim>\<open>vrom\<close>, set once by \<^verbatim>\<open>r3dgl_init\<close>. A pointer
  returned by \<^verbatim>\<open>translate_r3d_address\<close> is \<^verbatim>\<open>&base[offset]\<close> for one of them:
  the pair of the base and the byte offset, the offset computed in \<^verbatim>\<open>UINT32\<close>
  arithmetic as the source does. \<^verbatim>\<open>NULL\<close> is \<open>None\<close>.
\<close>

datatype r3d_buffer = Culling_ram_8c | Culling_ram_8e | Polygon_ram | Vrom

definition translate_r3d_address :: "32 word \<Rightarrow> (r3d_buffer \<times> 32 word) option" where
  "translate_r3d_address addr =
     (if addr \<le> 0x007FFFF then Some (Culling_ram_8c, addr * 4)
      else if addr \<ge> 0x0800000 \<and> addr \<le> 0x083FFFF then
        (let addr = addr AND 0x003FFFF in Some (Culling_ram_8e, addr * 4))
      else if addr \<ge> 0x1000000 \<and> addr \<le> 0x107FFFF then
        (let addr = addr AND 0x007FFFF in Some (Polygon_ram, addr * 4))
      else if addr \<ge> 0x1800000 \<and> addr \<le> 0x1FFFFFF then
        (let addr = addr AND 0x07FFFFF in Some (Vrom, addr * 4))
      else None)"

text \<open>The declared regions of the Real3D address space, first and last word address
  (the "Address Notes" at the head of the file and the comments of the four tests).\<close>

fun r3d_start :: "r3d_buffer \<Rightarrow> 32 word" where
  "r3d_start Culling_ram_8c = 0"
| "r3d_start Culling_ram_8e = 0x0800000"
| "r3d_start Polygon_ram = 0x1000000"
| "r3d_start Vrom = 0x1800000"

fun r3d_end :: "r3d_buffer \<Rightarrow> 32 word" where
  "r3d_end Culling_ram_8c = 0x007FFFF"
| "r3d_end Culling_ram_8e = 0x083FFFF"
| "r3d_end Polygon_ram = 0x107FFFF"
| "r3d_end Vrom = 0x1FFFFFF"

definition in_r3d_range :: "r3d_buffer \<Rightarrow> 32 word \<Rightarrow> bool" where
  "in_r3d_range b addr = (r3d_start b \<le> addr \<and> addr \<le> r3d_end b)"

text \<open>The largest byte offset of a word of each region: four times the region's last
  word index.\<close>

fun r3d_max_offset :: "r3d_buffer \<Rightarrow> nat" where
  "r3d_max_offset Culling_ram_8c = 4 * 0x7FFFF"
| "r3d_max_offset Culling_ram_8e = 4 * 0x3FFFF"
| "r3d_max_offset Polygon_ram = 4 * 0x7FFFF"
| "r3d_max_offset Vrom = 4 * 0x7FFFFF"

section \<open>r3dgl.c: word fetches\<close>

text \<open>
  Memory as seen through a \<^verbatim>\<open>UINT8 *\<close>: the byte at each offset from the base of a
  buffer. \<open>load32\<close> is the access \<^verbatim>\<open>*(UINT32 *) a\<close> on the little-endian host the
  emulator is written for: the byte at the lowest address is the least significant.
\<close>

type_synonym memory = "nat \<Rightarrow> 8 word"

definition load32 :: "memory \<Rightarrow> nat \<Rightarrow> 32 word" where
  "load32 m a =
     ucast (m a) OR push_bit 8 (ucast (m (a + 1)))
       OR push_bit 16 (ucast (m (a + 2))) OR push_bit 24 (ucast (m (a + 3)))"

text \<open>
  Modelled from the spec: \<^verbatim>\<open>BSWAP32\<close>, a macro of a header that is not among the
  sources. It is the byte reversal of a 32-bit word, written with shifts and masks.
\<close>

definition BSWAP32 :: "32 word \<Rightarrow> 32 word" where
  "BSWAP32 x =
     push_bit 24 (x AND 0xFF) OR push_bit 8 (x AND 0xFF00)
       OR (drop_bit 8 x AND 0xFF00) OR (drop_bit 24 x AND 0xFF)"

text \<open>\<^verbatim>\<open>#define GETWORDLE(a) (*(UINT32 *) a)\<close> and
  \<^verbatim>\<open>#define GETWORDBE(a) BSWAP32(*(UINT32 *) a)\<close>\<close>

definition GETWORDLE :: "memory \<Rightarrow> nat \<Rightarrow> 32 word" where
  "GETWORDLE m a = load32 m a"

definition GETWORDBE :: "memory \<Rightarrow> nat \<Rightarrow> 32 word" where
  "GETWORDBE m a = BSWAP32 (load32 m a)"

text \<open>The four bytes of a 32-bit value in the order the host stores them, lowest
  address first.\<close>

definition bytes32 :: "32 word \<Rightarrow> 8 word list" where
  "bytes32 x = [ucast x, ucast (drop_bit 8 x), ucast (drop_bit 16 x), ucast (drop_bit 24 x)]"

text \<open>The 32-bit value whose stored bytes, lowest address first, are the first four
  elements of a list.\<close>

definition word_of_bytes :: "8 word list \<Rightarrow> 32 word" where
  "word_of_bytes bs =
     ucast (bs ! 0) OR push_bit 8 (ucast (bs ! 1))
       OR push_bit 16 (ucast (bs ! 2)) OR push_bit 24 (ucast (bs ! 3))"

section \<open>r3dgl.c: model drawing\<close>

text \<open>
  Single-precision arithmetic is a parameter of the model: the conversion of an integer
  to \<^verbatim>\<open>float\<close> (the casts \<^verbatim>\<open>(float)\<close> and \<^verbatim>\<open>(GLfloat)\<close>), addition and
  division. Every result below holds for any choice of the three operations.
\<close>

record 'f float_ops =
  of_int_f :: "int \<Rightarrow> 'f"
  add_f :: "'f \<Rightarrow> 'f \<Rightarrow> 'f"
  div_f :: "'f \<Rightarrow> 'f \<Rightarrow> 'f"

text \<open>\<^verbatim>\<open>convert_fixed_to_float\<close>: 13.19 fixed point to float. The argument is a signed
  \<^verbatim>\<open>INT32\<close>, so \<^verbatim>\<open>num >> 19\<close> is the arithmetic shift.\<close>

definition convert_fixed_to_float :: "'f float_ops \<Rightarrow> 32 word \<Rightarrow> 'f" where
  "convert_fixed_to_float fl num =
     (let result = of_int_f fl (sint (signed_drop_bit 19 num));
          result = add_f fl result
                     (div_f fl (of_int_f fl (sint (num AND 0x7ffff))) (of_int_f fl 524288))
      in result)"

text \<open>The anonymous vertex struct \<^verbatim>\<open>{ GLfloat x, y, z; UINT uv; }\<close>. The arrays
  \<^verbatim>\<open>v[4]\<close> and \<^verbatim>\<open>prev_v[4]\<close> are functions of the index; the source only uses
  the indices 0 to 3.\<close>

record 'f vertex =
  vx :: 'f
  vy :: 'f
  vz :: 'f
  uv :: "32 word"

type_synonym 'f vertices = "nat \<Rightarrow> 'f vertex"

text \<open>The OpenGL calls a model makes, in order, with their arguments.\<close>

datatype gl_cap = GL_TEXTURE_2D | GL_BLEND
datatype gl_prim = GL_QUADS | GL_TRIANGLES
datatype gl_factor = GL_SRC_ALPHA | GL_ONE_MINUS_SRC_ALPHA

datatype 'f gl_call =
    GlColor3ub "8 word" "8 word" "8 word"
  | GlDisable gl_cap
  | GlEnable gl_cap
  | GlBlendFunc gl_factor gl_factor
  | GlBindTexture "32 word"
  | GlBegin gl_prim
  | GlTexCoord2f 'f 'f
  | GlVertex3f 'f 'f 'f
  | GlEnd

text \<open>
  One pass of the vertex loops,
  \<^verbatim>\<open>v[k].x = convert_fixed_to_float(GETWORD(&buf[0x1C + i*16 + 0*4]))\<close> and so on for
  \<^verbatim>\<open>y\<close>, \<^verbatim>\<open>z\<close> and \<^verbatim>\<open>uv\<close>. The word fetch \<open>getw\<close> is \<open>GETWORDBE\<close> in
  \<^verbatim>\<open>draw_model_be\<close> and \<open>GETWORDLE\<close> in \<^verbatim>\<open>draw_model_le\<close>; \<open>buf\<close> is the
  offset of the pointer \<^verbatim>\<open>buf\<close> from the start of the model.
\<close>

definition read_vertex ::
    "'f float_ops \<Rightarrow> (memory \<Rightarrow> nat \<Rightarrow> 32 word) \<Rightarrow> memory \<Rightarrow> nat \<Rightarrow> nat \<Rightarrow> 'f vertex" where
  "read_vertex fl getw m buf i =
     \<lparr>vx = convert_fixed_to_float fl (getw m (buf + 0x1C + i * 16 + 0 * 4)),
      vy = convert_fixed_to_float fl (getw m (buf + 0x1C + i * 16 + 1 * 4)),
      vz = convert_fixed_to_float fl (getw m (buf + 0x1C + i * 16 + 2 * 4)),
      uv = getw m (buf + 0x1C + i * 16 + 3 * 4)\<rparr>"

text \<open>\<^verbatim>\<open>for (i = 0; i < n; i++) v[first + i] = \<close> the vertex number \<open>i\<close> of the
  polygon.\<close>

primrec load_verts ::
    "'f float_ops \<Rightarrow> (memory \<Rightarrow> nat \<Rightarrow> 32 word) \<Rightarrow> memory \<Rightarrow> nat \<Rightarrow> nat \<Rightarrow> nat
      \<Rightarrow> 'f vertices \<Rightarrow> 'f vertices" where
  "load_verts fl getw m buf first 0 v = v"
| "load_verts fl getw m buf first (Suc n) v =
     (load_verts fl getw m buf first n v)(first + n := read_vertex fl getw m buf n)"

text \<open>
  The \<^verbatim>\<open>switch\<close> of the quad branch on the low four bits of the polygon's flag
  byte: the vertices after the switch and the advanced \<^verbatim>\<open>buf\<close>. A value that is
  none of the case labels leaves both as they are (the switch has no default).
\<close>

definition quad_switch ::
    "'f float_ops \<Rightarrow> (memory \<Rightarrow> nat \<Rightarrow> 32 word) \<Rightarrow> memory \<Rightarrow> nat \<Rightarrow> 8 word
      \<Rightarrow> 'f vertices \<Rightarrow> 'f vertices \<Rightarrow> 'f vertices \<times> nat" where
  "quad_switch fl getw m buf sel v prev_v =
     (if sel = 0 then (load_verts fl getw m buf 0 4 v, buf + 0x5C)
      else if sel = 1 then (load_verts fl getw m buf 1 3 (v(0 := prev_v 0)), buf + 0x4C)
      else if sel = 2 then (load_verts fl getw m buf 1 3 (v(0 := prev_v 1)), buf + 0x4C)
      else if sel = 4 then (load_verts fl getw m buf 1 3 (v(0 := prev_v 2)), buf + 0x4C)
      else if sel = 8 then (load_verts fl getw m buf 1 3 (v(0 := prev_v 3)), buf + 0x4C)
      else if sel = 3 then
        (load_verts fl getw m buf 2 2 (v(0 := prev_v 0, 1 := prev_v 1)), buf + 0x3C)
      else if sel = 5 then
        (load_verts fl getw m buf 2 2 (v(0 := prev_v 0, 1 := prev_v 2)), buf + 0x3C)
      else if sel = 6 then
        (load_verts fl getw m buf 2 2 (v(0 := prev_v 1, 1 := prev_v 2)), buf + 0x3C)
      else if sel = 9 then
        (load_verts fl getw m buf 2 2 (v(0 := prev_v 0, 1 := prev_v 3)), buf + 0x3C)
      else if sel = 0xC then
        (load_verts fl getw m buf 2 2 (v(0 := prev_v 2, 1 := prev_v 3)), buf + 0x3C)
      else (v, buf))"

text \<open>The \<^verbatim>\<open>switch\<close> of the triangle branch. The one-vertex cases assign
  \<^verbatim>\<open>v[2]\<close> from vertex number 0 without a loop.\<close>

definition tri_switch ::
    "'f float_ops \<Rightarrow> (memory \<Rightarrow> nat \<Rightarrow> 32 word) \<Rightarrow> memory \<Rightarrow> nat \<Rightarrow> 8 word
      \<Rightarrow> 'f vertices \<Rightarrow> 'f vertices \<Rightarrow> 'f vertices \<times> nat" where
  "tri_switch fl getw m buf sel v prev_v =
     (if sel = 0 then (load_verts fl getw m buf 0 3 v, buf + 0x4C)
      else if sel = 1 then (load_verts fl getw m buf 1 2 (v(0 := prev_v 0)), buf + 0x3C)
      else if sel = 2 then (load_verts fl getw m buf 1 2 (v(0 := prev_v 1)), buf + 0x3C)
      else if sel = 4 then (load_verts fl getw m buf 1 2 (v(0 := prev_v 2)), buf + 0x3C)
      else if sel = 8 then (load_verts fl getw m buf 1 2 (v(0 := prev_v 3)), buf + 0x3C)
      else if sel = 3 then
        (v(0 := prev_v 0, 1 := prev_v 1, 2 := read_vertex fl getw m buf 0), buf + 0x2C)
      else if sel = 5 then
        (v(0 := prev_v 0, 1 := prev_v 2, 2 := read_vertex fl getw m buf 0), buf + 0x2C)
      else if sel = 6 then
        (v(0 := prev_v 1, 1 := prev_v 2, 2 := read_vertex fl getw m buf 0), buf + 0x2C)
      else if sel = 9 then
        (v(0 := prev_v 0, 1 := prev_v 3, 2 := read_vertex fl getw m buf 0), buf + 0x2C)
      else if sel = 0xC then
        (v(0 := prev_v 2, 1 := prev_v 3, 2 := read_vertex fl getw m buf 0), buf + 0x2C)
      else (v, buf))"

text \<open>\<^verbatim>\<open>for (i = 0; i < n; i++) prev_v[i] = v[i];\<close>\<close>

definition save_verts :: "nat \<Rightarrow> 'f vertices \<Rightarrow> 'f vertices \<Rightarrow> 'f vertices" where
  "save_verts n v prev_v = (\<lambda>i. if i < n then v i else prev_v i)"

text \<open>
  The block "Draw the quad w/ OpenGL" (\<open>prim = GL_QUADS\<close>, \<open>n = 4\<close>) and "Draw the
  triangle w/ OpenGL" (\<open>prim = GL_TRIANGLES\<close>, \<open>n = 3\<close>), after the vertices have
  been saved. \<open>grid\<close> is the array \<^verbatim>\<open>texture_grid\<close>.
\<close>

definition draw_poly ::
    "'f float_ops \<Rightarrow> (nat \<Rightarrow> 32 word) \<Rightarrow> gl_prim \<Rightarrow> nat \<Rightarrow> 32 word \<Rightarrow> 32 word \<Rightarrow> 32 word
      \<Rightarrow> 32 word \<Rightarrow> 32 word \<Rightarrow> 'f vertices \<Rightarrow> 'f gl_call list" where
  "draw_poly fl grid prim n tex_enable tex_w tex_h u_base v_base v =
     (if tex_enable = 0 then [GlDisable GL_TEXTURE_2D] else [])
     @ [GlEnable GL_BLEND, GlBlendFunc GL_SRC_ALPHA GL_ONE_MINUS_SRC_ALPHA,
        GlBindTexture (grid (unat ((v_base div 32) * 64 + (u_base div 32)))),
        GlBegin prim]
     @ concat (map (\<lambda>i.
          (let u_coord = drop_bit 16 (uv (v i));
               v_coord = uv (v i) AND 0xFFFF;
               u_coord = drop_bit 3 u_coord;
               v_coord = drop_bit 3 v_coord
           in [GlTexCoord2f
                 (div_f fl (of_int_f fl (uint u_coord)) (of_int_f fl (uint tex_w)))
                 (div_f fl (of_int_f fl (uint v_coord)) (of_int_f fl (uint tex_h))),
               GlVertex3f (vx (v i)) (vy (v i)) (vz (v i))])) [0..<n])
     @ [GlEnd, GlDisable GL_BLEND]
     @ (if tex_enable = 0 then [GlEnable GL_TEXTURE_2D] else [])"

text \<open>The state after one pass of the body of the \<^verbatim>\<open>do ... while (!stop)\<close> loop:
  the local variables and the OpenGL calls the pass made.\<close>

record 'f poly_out =
  p_buf :: nat
  p_v :: "'f vertices"
  p_prev_v :: "'f vertices"
  p_stop :: "32 word"
  p_tex_enable :: "32 word"
  p_tex_w :: "32 word"
  p_tex_h :: "32 word"
  p_u_base :: "32 word"
  p_v_base :: "32 word"
  p_calls :: "'f gl_call list"

text \<open>The loop body of \<^verbatim>\<open>draw_model_be\<close>.\<close>

definition poly_be ::
    "'f float_ops \<Rightarrow> (nat \<Rightarrow> 32 word) \<Rightarrow> memory \<Rightarrow> nat \<Rightarrow> 'f vertices \<Rightarrow> 'f vertices
      \<Rightarrow> 'f poly_out" where
  "poly_be fl grid m buf v prev_v =
     (let tex_w = push_bit (unat (drop_bit 3 (GETWORDBE m (buf + 3 * 4)) AND 7)) (32 :: 32 word);
          tex_h = push_bit (unat (drop_bit 0 (GETWORDBE m (buf + 3 * 4)) AND 7)) (32 :: 32 word);
          u_base = push_bit 1 (GETWORDBE m (buf + 4 * 4) AND 0x1F)
                     OR drop_bit 7 (GETWORDBE m (buf + 5 * 4) AND 0x80);
          v_base = (GETWORDBE m (buf + 5 * 4) AND 0x1F)
                     OR drop_bit 1 (GETWORDBE m (buf + 4 * 4) AND 0x40);
          u_base = u_base * 32;
          v_base = v_base * 32;
          colour = GlColor3ub (m (buf + 4 * 4 + 0)) (m (buf + 4 * 4 + 1)) (m (buf + 4 * 4 + 2));
          tex_enable = ucast (m (buf + 6 * 4 + 0) AND 0x04);
          stop = ucast (m (buf + 1 * 4 + 3) AND 4)
      in if m (buf + 0 * 4 + 3) AND 0x40 \<noteq> 0 then
           (let (v', buf') = quad_switch fl GETWORDBE m buf (m (buf + 0 * 4 + 3) AND 0x0F) v prev_v;
                prev_v' = save_verts 4 v' prev_v
            in \<lparr>p_buf = buf', p_v = v', p_prev_v = prev_v', p_stop = stop,
                 p_tex_enable = tex_enable, p_tex_w = tex_w, p_tex_h = tex_h,
                 p_u_base = u_base, p_v_base = v_base,
                 p_calls = colour
                   # draw_poly fl grid GL_QUADS 4 tex_enable tex_w tex_h u_base v_base v'\<rparr>)
         else
           (let (v', buf') = tri_switch fl GETWORDBE m buf (m (buf + 0 * 4 + 3) AND 0x0F) v prev_v;
                prev_v' = save_verts 3 v' prev_v
            in \<lparr>p_buf = buf', p_v = v', p_prev_v = prev_v', p_stop = stop,
                 p_tex_enable = tex_enable, p_tex_w = tex_w, p_tex_h = tex_h,
                 p_u_base = u_base, p_v_base = v_base,
                 p_calls = colour
                   # draw_poly fl grid GL_TRIANGLES 3 tex_enable tex_w tex_h u_base v_base v'\<rparr>))"

text \<open>The loop body of \<^verbatim>\<open>draw_model_le\<close>.\<close>

definition poly_le ::
    "'f float_ops \<Rightarrow> (nat \<Rightarrow> 32 word) \<Rightarrow> memory \<Rightarrow> nat \<Rightarrow> 'f vertices \<Rightarrow> 'f vertices
      \<Rightarrow> 'f poly_out" where
  "poly_le fl grid m buf v prev_v =
     (let tex_w = push_bit (unat (drop_bit 3 (GETWORDLE m (buf + 3 * 4)) AND 7)) (32 :: 32 word);
          tex_h = push_bit (unat (drop_bit 0 (GETWORDLE m (buf + 3 * 4)) AND 7)) (32 :: 32 word);
          u_base = push_bit 1 (GETWORDLE m (buf + 4 * 4) AND 0x1F)
                     OR drop_bit 7 (GETWORDLE m (buf + 5 * 4) AND 0x80);
          v_base = (GETWORDLE m (buf + 5 * 4) AND 0x1F)
                     OR drop_bit 1 (GETWORDLE m (buf + 4 * 4) AND 0x40);
          u_base = u_base * 32;
          v_base = v_base * 32;
          colour = GlColor3ub (m (buf + 4 * 4 + 3)) (m (buf + 4 * 4 + 2)) (m (buf + 4 * 4 + 1));
          tex_enable = ucast (m (buf + 6 * 4 + 3) AND 0x04);
          stop = ucast (m (buf + 1 * 4 + 0) AND 4)
      in if m (buf + 0 * 4 + 0) AND 0x40 \<noteq> 0 then
           (let (v', buf') = quad_switch fl GETWORDLE m buf (m (buf + 0 * 4 + 0) AND 0x0F) v prev_v;
                prev_v' = save_verts 4 v' prev_v
            in \<lparr>p_buf = buf', p_v = v', p_prev_v = prev_v', p_stop = stop,
                 p_tex_enable = tex_enable, p_tex_w = tex_w, p_tex_h = tex_h,
                 p_u_base = u_base, p_v_base = v_base,
                 p_calls = colour
                   # draw_poly fl grid GL_QUADS 4 tex_enable tex_w tex_h u_base v_base v'\<rparr>)
         else
           (let (v', buf') = tri_switch fl GETWORDLE m buf (m (buf + 0 * 4 + 0) AND 0x0F) v prev_v;
                prev_v' = save_verts 3 v' prev_v
            in \<lparr>p_buf = buf', p_v = v', p_prev_v = prev_v', p_stop = stop,
                 p_tex_enable = tex_enable, p_tex_w = tex_w, p_tex_h = tex_h,
                 p_u_base = u_base, p_v_base = v_base,
                 p_calls = colour
                   # draw_poly fl grid GL_TRIANGLES 3 tex_enable tex_w tex_h u_base v_base v'\<rparr>))"

text \<open>
  The loop \<^verbatim>\<open>do { ... } while (!stop);\<close>. A flag byte that selects no case of the
  switch leaves \<^verbatim>\<open>buf\<close> where it is, so the loop need not end: the function takes
  the number of passes it may make and returns the calls made together with whether the
  loop has ended within them.
\<close>

fun draw_loop_be ::
    "'f float_ops \<Rightarrow> (nat \<Rightarrow> 32 word) \<Rightarrow> memory \<Rightarrow> nat \<Rightarrow> nat \<Rightarrow> 'f vertices \<Rightarrow> 'f vertices
      \<Rightarrow> 'f gl_call list \<times> bool" where
  "draw_loop_be fl grid m 0 buf v prev_v = ([], False)"
| "draw_loop_be fl grid m (Suc fuel) buf v prev_v =
     (let r = poly_be fl grid m buf v prev_v
      in if p_stop r \<noteq> 0 then (p_calls r, True)
         else (let (cs, fin) = draw_loop_be fl grid m fuel (p_buf r) (p_v r) (p_prev_v r)
               in (p_calls r @ cs, fin)))"

fun draw_loop_le ::
    "'f float_ops \<Rightarrow> (nat \<Rightarrow> 32 word) \<Rightarrow> memory \<Rightarrow> nat \<Rightarrow> nat \<Rightarrow> 'f vertices \<Rightarrow> 'f vertices
      \<Rightarrow> 'f gl_call list \<times> bool" where
  "draw_loop_le fl grid m 0 buf v prev_v = ([], False)"
| "draw_loop_le fl grid m (Suc fuel) buf v prev_v =
     (let r = poly_le fl grid m buf v prev_v
      in if p_stop r \<noteq> 0 then (p_calls r, True)
         else (let (cs, fin) = draw_loop_le fl grid m fuel (p_buf r) (p_v r) (p_prev_v r)
               in (p_calls r @ cs, fin)))"

text \<open>
  \<^verbatim>\<open>draw_model_be\<close> and \<^verbatim>\<open>draw_model_le\<close>. The argument is \<open>None\<close> for a
  \<^verbatim>\<open>NULL\<close> pointer and otherwise the memory the pointer refers to, offset 0 being
  the first byte of the model. \<open>v\<close> and \<open>prev_v\<close> are the contents of the two
  uninitialised local arrays on entry. The call of \<^verbatim>\<open>R3D_LOG\<close> is left out.
\<close>

definition draw_model_be ::
    "'f float_ops \<Rightarrow> (nat \<Rightarrow> 32 word) \<Rightarrow> nat \<Rightarrow> memory option \<Rightarrow> 'f vertices \<Rightarrow> 'f vertices
      \<Rightarrow> 'f gl_call list \<times> bool" where
  "draw_model_be fl grid fuel buf v prev_v =
     (case buf of
        None \<Rightarrow> ([], True)
      | Some m \<Rightarrow>
          if GETWORDBE m (0 * 4) = 0 then ([], True)
          else draw_loop_be fl grid m fuel 0 v prev_v)"

definition draw_model_le ::
    "'f float_ops \<Rightarrow> (nat \<Rightarrow> 32 word) \<Rightarrow> nat \<Rightarrow> memory option \<Rightarrow> 'f vertices \<Rightarrow> 'f vertices
      \<Rightarrow> 'f gl_call list \<times> bool" where
  "draw_model_le fl grid fuel buf v prev_v =
     (case buf of
        None \<Rightarrow> ([], True)
      | Some m \<Rightarrow>
          if GETWORDLE m (0 * 4) = 0 then ([], True)
          else draw_loop_le fl grid m fuel 0 v prev_v)"

text \<open>The buffer in which the four bytes of every aligned 32-bit word are reversed.\<close>

definition swap_words :: "memory \<Rightarrow> memory" where
  "swap_words m = (\<lambda>i. m (4 * (i div 4) + (3 - i mod 4)))"

section \<open>r3dgl.c: the texture grid\<close>

text \<open>
  \<^verbatim>\<open>static GLint texture_grid[64*64]\<close> is a list of 4096 entries. C does not check
  an index; a store outside the array is recorded as a fault instead of being performed.
\<close>

datatype fault = Out_of_bounds nat

definition grid_store :: "nat \<Rightarrow> 32 word \<Rightarrow> 32 word list \<Rightarrow> fault + 32 word list" where
  "grid_store i x g = (if i < length g then Inr (g[i := x]) else Inl (Out_of_bounds i))"

primrec store_all :: "nat list \<Rightarrow> 32 word \<Rightarrow> 32 word list \<Rightarrow> fault + 32 word list" where
  "store_all [] x g = Inr g"
| "store_all (i # is) x g =
     (case grid_store i x g of Inl e \<Rightarrow> Inl e | Inr g' \<Rightarrow> store_all is x g')"

text \<open>
  The indices of \<^verbatim>\<open>texture_grid\<close> that \<^verbatim>\<open>r3dgl_upload_texture\<close> stores to, in the
  order of its two nested loops
  \<^verbatim>\<open>for (yi = 0; yi < (tiles_y * 8) / 32; yi++)
     for (xi = 0; xi < (tiles_x * 8) / 32; xi++)
       texture_grid[(yi + ypos / 32) * 64 + (xi + xpos / 32)] = id;\<close>
  with the size and position decoded from the header word as the function does, all in
  \<^verbatim>\<open>UINT\<close> arithmetic.
\<close>

definition texture_grid_writes :: "32 word \<Rightarrow> nat list" where
  "texture_grid_writes header =
     (let tiles_x = drop_bit 14 header AND 3;
          tiles_y = drop_bit 17 header AND 3;
          tiles_x = push_bit (unat tiles_x) (32 :: 32 word) div 8;
          tiles_y = push_bit (unat tiles_y) (32 :: 32 word) div 8;
          ypos = ((drop_bit 7 header AND 0x1F) OR (drop_bit 15 header AND 0x20)) * 32;
          xpos = (drop_bit 0 header AND 0x3F) * 32
      in concat (map (\<lambda>yi. map (\<lambda>xi.
             unat ((of_nat yi + ypos div 32) * 64 + (of_nat xi + xpos div 32)))
           [0..<unat ((tiles_x * 8) div 32)])
         [0..<unat ((tiles_y * 8) div 32)]))"

text \<open>
  The effect of \<^verbatim>\<open>r3dgl_upload_texture\<close> on \<^verbatim>\<open>texture_grid\<close>. \<open>tex_id\<close> is the
  texture name (the local \<^verbatim>\<open>id\<close>) \<^verbatim>\<open>glGenTextures\<close> hands out. A header whose bits 24 to 27 are 2
  returns before anything is stored. The decoding of the texels into
  \<^verbatim>\<open>texture_buffer\<close> and the OpenGL calls do not touch the grid and are left out.
\<close>

definition r3dgl_upload_texture ::
    "32 word \<Rightarrow> 32 word \<Rightarrow> 32 word list \<Rightarrow> fault + 32 word list" where
  "r3dgl_upload_texture header tex_id g =
     (if header AND 0x0f000000 = 0x02000000 then Inr g
      else store_all (texture_grid_writes header) tex_id g)"

section \<open>drppc.h: block descriptors and configuration\<close>

text \<open>\<^verbatim>\<open>struct drppc_bb\<close>. The field \<^verbatim>\<open>ptr\<close>, the pointer to the translated block,
  is spelled \<open>bb_ptr\<close>. The counters are unbounded here.\<close>

record DRPPC_BB =
  count :: nat
  bb_ptr :: pointer
  interp_size :: int
  native_size :: int
  interp_exec_time :: int
  native_exec_time :: int

text \<open>The fields of \<^verbatim>\<open>struct drppc_cfg\<close> that the driver and the code cache read:
  the interpret-only flag, the allocation hook, the two cache sizes with their guard
  sizes, and the hot threshold.\<close>

record DRPPC_CFG =
  interpret_only :: bool
  Alloc :: "nat \<Rightarrow> pointer"
  native_cache_size :: nat
  native_cache_guard_size :: nat
  intermediate_cache_size :: nat
  intermediate_cache_guard_size :: nat
  hot_threshold :: nat

text \<open>\<^verbatim>\<open>#define DRPPC_ZERO_THRESHOLD 1\<close>, "the exact threshold needed to bypass the
  profiling stage".\<close>

definition DRPPC_ZERO_THRESHOLD :: nat where
  "DRPPC_ZERO_THRESHOLD = 1"

section \<open>Execution driver and code cache\<close>

text \<open>
  The sources of the execution driver and of the code cache manager are not among the
  files; \<^verbatim>\<open>drppc.h\<close> declares their data only. The definitions of this section follow
  the specification (sections 3, 4.3, 4.4 and 7).
\<close>

text \<open>Modelled from the spec: the three states of a block in the driver's state
  machine, missing with the driver's source.\<close>

datatype block_state = Uncompiled | Interpreted | Native

text \<open>
  Modelled from the spec: the state of a block, missing with the driver's source. A
  block without a descriptor has never been seen; \<^verbatim>\<open>native_code\<close> is null until the
  block is promoted.
\<close>

definition state_of :: "DRPPC_BB option \<Rightarrow> block_state" where
  "state_of d =
     (case d of
        None \<Rightarrow> Uncompiled
      | Some bb \<Rightarrow> if bb_ptr bb = NULL then Interpreted else Native)"

text \<open>
  Modelled from the spec: one entry of a block by the execution driver, whose source is
  missing. A block never seen gets a fresh descriptor. A native block is entered
  directly. Otherwise the entry is counted, and when the count reaches the configured hot
  threshold the block is translated, \<open>code\<close> being the pointer to the translation;
  \<^verbatim>\<open>interpret_only\<close> pins every block in the interpreted state. Translation is taken to
  succeed.
\<close>

definition enter_block :: "DRPPC_CFG \<Rightarrow> pointer \<Rightarrow> DRPPC_BB option \<Rightarrow> DRPPC_BB" where
  "enter_block cfg code d =
     (let bb = (case d of
                  None \<Rightarrow> \<lparr>count = 0, bb_ptr = NULL, interp_size = 0, native_size = 0,
                            interp_exec_time = 0, native_exec_time = 0\<rparr>
                | Some bb \<Rightarrow> bb)
      in if bb_ptr bb = NULL then
           (let bb = bb\<lparr>count := count bb + 1\<rparr>
            in if interpret_only cfg then bb
               else if hot_threshold cfg \<le> count bb then bb\<lparr>bb_ptr := code\<rparr>
               else bb)
         else bb)"

text \<open>Modelled from the spec: the descriptor of a block after \<open>n\<close> entries by the
  driver.\<close>

primrec enter_n :: "DRPPC_CFG \<Rightarrow> pointer \<Rightarrow> nat \<Rightarrow> DRPPC_BB option \<Rightarrow> DRPPC_BB option" where
  "enter_n cfg code 0 d = d"
| "enter_n cfg code (Suc n) d = Some (enter_block cfg code (enter_n cfg code n d))"

text \<open>
  Modelled from the spec: the engine's caches, whose source is missing: the block
  descriptor store, the lookup index from guest addresses to descriptors, and the fill
  levels of the native and the intermediate arena.
\<close>

record engine =
  bb_store :: "DRPPC_BB list"
  lookup_index :: "32 word \<rightharpoonup> nat"
  native_used :: nat
  intermediate_used :: nat

text \<open>Modelled from the spec: the two arenas of the code cache manager, each with its
  configured size, its configured guard size and its fill level.\<close>

datatype arena = Native_arena | Intermediate_arena

fun arena_size :: "DRPPC_CFG \<Rightarrow> arena \<Rightarrow> nat" where
  "arena_size cfg Native_arena = native_cache_size cfg"
| "arena_size cfg Intermediate_arena = intermediate_cache_size cfg"

fun arena_guard_size :: "DRPPC_CFG \<Rightarrow> arena \<Rightarrow> nat" where
  "arena_guard_size cfg Native_arena = native_cache_guard_size cfg"
| "arena_guard_size cfg Intermediate_arena = intermediate_cache_guard_size cfg"

fun arena_used :: "engine \<Rightarrow> arena \<Rightarrow> nat" where
  "arena_used e Native_arena = native_used e"
| "arena_used e Intermediate_arena = intermediate_used e"

fun set_arena_used :: "arena \<Rightarrow> nat \<Rightarrow> engine \<Rightarrow> engine" where
  "set_arena_used Native_arena n e = e\<lparr>native_used := n\<rparr>"
| "set_arena_used Intermediate_arena n e = e\<lparr>intermediate_used := n\<rparr>"

text \<open>Modelled from the spec: the guard boundary of an arena, the start of its trailing
  guard region.\<close>

definition guard_boundary :: "DRPPC_CFG \<Rightarrow> arena \<Rightarrow> nat" where
  "guard_boundary cfg a = arena_size cfg a - arena_guard_size cfg a"

text \<open>
  Modelled from the spec: \<^verbatim>\<open>Allocate(arena, size)\<close> of the code cache manager, whose
  source is missing. A reservation that would breach the guard boundary signals
  capacity-exceeded (\<open>None\<close>); otherwise the offset of the reserved space is returned
  and the arena's fill level grows.
\<close>

definition allocate :: "DRPPC_CFG \<Rightarrow> arena \<Rightarrow> nat \<Rightarrow> engine \<Rightarrow> (nat \<times> engine) option" where
  "allocate cfg a sz e =
     (if guard_boundary cfg a < arena_used e a + sz then None
      else Some (arena_used e a, set_arena_used a (arena_used e a + sz) e))"

text \<open>Modelled from the spec: the full flush: all block descriptors discarded, both
  arenas reset to empty, the lookup index invalidated in full.\<close>

definition flush :: "engine \<Rightarrow> engine" where
  "flush e = \<lparr>bb_store = [], lookup_index = Map.empty, native_used = 0, intermediate_used = 0\<rparr>"

text \<open>
  Modelled from the spec: the driver's reservation before a translation, whose source is
  missing. Capacity-exceeded triggers the flush and execution resumes: the status is
  \<^verbatim>\<open>DRPPC_OKAY\<close> either way, and no space is handed out after a flush.
\<close>

definition reserve ::
    "DRPPC_CFG \<Rightarrow> arena \<Rightarrow> nat \<Rightarrow> engine \<Rightarrow> DRPPC_ERRNUM \<times> nat option \<times> engine" where
  "reserve cfg a sz e =
     (case allocate cfg a sz e of
        None \<Rightarrow> (DRPPC_OKAY, None, flush e)
      | Some (p, e') \<Rightarrow> (DRPPC_OKAY, Some p, e'))"

text \<open>Modelled from the spec: the lookup of the descriptor of a guest address through
  the lookup index.\<close>

definition LookupBB :: "engine \<Rightarrow> 32 word \<Rightarrow> DRPPC_BB option" where
  "LookupBB e addr =
     (case lookup_index e addr of
        None \<Rightarrow> None
      | Some i \<Rightarrow> if i < length (bb_store e) then Some (bb_store e ! i) else None)"

text \<open>
  Modelled from the spec: initialisation obtains the two arenas from the host's
  allocation hook; a null result is fatal, the engine having no other way to allocate,
  and \<^verbatim>\<open>DRPPC_OUT_OF_MEMORY\<close> is returned to the host instead of an engine.
\<close>

definition drppc_init :: "DRPPC_CFG \<Rightarrow> DRPPC_ERRNUM + engine" where
  "drppc_init cfg =
     (if Alloc cfg (native_cache_size cfg) = NULL then Inl DRPPC_OUT_OF_MEMORY
      else if Alloc cfg (intermediate_cache_size cfg) = NULL then Inl DRPPC_OUT_OF_MEMORY
      else Inr \<lparr>bb_store = [], lookup_index = Map.empty, native_used = 0,
                intermediate_used = 0\<rparr>)"

section \<open>Theorems\<close>

text \<open>
  C6. The status type has exactly eight values: the seven host-visible codes
  generic error (-1), invalid configuration (-2), bad program counter (-3), out of
  memory (-4), compile error (-5), runtime error (-6) and okay (0), pairwise distinct,
  okay equal to zero and every other host-visible code negative, and exactly one
  internal-only value, \<^verbatim>\<open>DRPPC_TERMINATOR\<close>, whose value differs from that of every
  host-visible code.
\<close>

theorem errnum_codes:
  "map errnum_value host_visible = [-1, -2, -3, -4, -5, -6, 0]
   \<and> distinct (map errnum_value host_visible)
   \<and> length host_visible = 7
   \<and> errnum_value DRPPC_OKAY = 0
   \<and> list_all (\<lambda>e. e = DRPPC_OKAY \<or> errnum_value e < 0) host_visible
   \<and> internal_only = [DRPPC_TERMINATOR]
   \<and> errnum_value DRPPC_TERMINATOR \<notin> set (map errnum_value host_visible)
   \<and> set host_visible \<inter> set internal_only = {}
   \<and> set host_visible \<union> set internal_only = (UNIV :: DRPPC_ERRNUM set)
   \<and> inj errnum_value"
proof -
  have univ: "(UNIV :: DRPPC_ERRNUM set) =
      {DRPPC_ERROR, DRPPC_INVALID_CONFIG, DRPPC_BAD_PC, DRPPC_OUT_OF_MEMORY,
       DRPPC_COMPILE_ERROR, DRPPC_RUNTIME_ERROR, DRPPC_OKAY, DRPPC_TERMINATOR}"
  proof -
    have "x \<in> {DRPPC_ERROR, DRPPC_INVALID_CONFIG, DRPPC_BAD_PC, DRPPC_OUT_OF_MEMORY,
       DRPPC_COMPILE_ERROR, DRPPC_RUNTIME_ERROR, DRPPC_OKAY, DRPPC_TERMINATOR}" for x
      by (cases x) simp_all
    then show ?thesis by blast
  qed
  have inj: "inj errnum_value"
  proof (rule injI)
    fix x y assume "errnum_value x = errnum_value y"
    then show "x = y" by (cases x; cases y) simp_all
  qed
  show ?thesis
    using inj by (simp add: host_visible_def internal_only_def univ) blast
qed

text \<open>
  C5. Every region built by one of the region macros has at most one of \<^verbatim>\<open>ptr\<close>
  and \<^verbatim>\<open>handler\<close> set: the four buffer constructors set \<^verbatim>\<open>handler\<close> to NULL, the
  two handler constructors set \<^verbatim>\<open>ptr\<close> to NULL, and the end and placeholder regions
  set both to NULL.
\<close>

theorem region_macros_exclusive:
  "handler (DRPPC_REGION_BUF_BE s e buf vol) = NULL
   \<and> handler (DRPPC_REGION_BUF_LE scope_vol s e buf flags) = NULL
   \<and> handler (DRPPC_SET_REGION_BUF_BE r s e buf vol) = NULL
   \<and> handler (DRPPC_SET_REGION_BUF_LE r s e buf vol) = NULL
   \<and> ptr (DRPPC_REGION_HANDLER s e h) = NULL
   \<and> ptr (DRPPC_SET_REGION_HANDLER r s e h) = NULL
   \<and> ptr DRPPC_REGION_END = NULL \<and> handler DRPPC_REGION_END = NULL
   \<and> ptr DRPPC_REGION_PLACEHOLDER = NULL \<and> handler DRPPC_REGION_PLACEHOLDER = NULL
   \<and> at_most_one_access (DRPPC_REGION_BUF_BE s e buf vol)
   \<and> at_most_one_access (DRPPC_REGION_BUF_LE scope_vol s e buf flags)
   \<and> at_most_one_access (DRPPC_REGION_HANDLER s e h)
   \<and> at_most_one_access DRPPC_REGION_END
   \<and> at_most_one_access DRPPC_REGION_PLACEHOLDER
   \<and> at_most_one_access (DRPPC_SET_REGION_BUF_BE r s e buf vol)
   \<and> at_most_one_access (DRPPC_SET_REGION_BUF_LE r s e buf vol)
   \<and> at_most_one_access (DRPPC_SET_REGION_HANDLER r s e h)"
  by (simp add: at_most_one_access_def DRPPC_REGION_BUF_BE_def DRPPC_REGION_BUF_LE_def
      DRPPC_REGION_HANDLER_def DRPPC_REGION_END_def DRPPC_REGION_PLACEHOLDER_def
      DRPPC_SET_REGION_BUF_BE_def DRPPC_SET_REGION_BUF_LE_def DRPPC_SET_REGION_HANDLER_def)

text \<open>
  C3. Evaluation of the two buffer macros at one argument list, expanded in a scope
  whose identifier \<^verbatim>\<open>vol\<close> is \<^verbatim>\<open>FALSE\<close>: the big-endian macro stores the supplied
  volatility flag \<^verbatim>\<open>TRUE\<close>, the little-endian macro stores the scope's \<^verbatim>\<open>vol\<close>, so
  the two regions differ in \<^verbatim>\<open>volatile_ptr\<close> as well as in \<^verbatim>\<open>big_endian\<close>.
\<close>

theorem region_buf_le_ignores_flag:
  "volatile_ptr (DRPPC_REGION_BUF_BE 0 0xFFFF (Addr 4096) True) = True
   \<and> volatile_ptr (DRPPC_REGION_BUF_LE False 0 0xFFFF (Addr 4096) True) = False
   \<and> DRPPC_REGION_BUF_LE False 0 0xFFFF (Addr 4096) True
       \<noteq> (DRPPC_REGION_BUF_BE 0 0xFFFF (Addr 4096) True)\<lparr>big_endian := False\<rparr>"
  by (simp add: DRPPC_REGION_BUF_BE_def DRPPC_REGION_BUF_LE_def)


subsection \<open>Address translation\<close>

lemma mask18: "(0x3FFFF :: 32 word) = mask 18"
  by (simp add: mask_eq_exp_minus_1)

lemma mask19: "(0x7FFFF :: 32 word) = mask 19"
  by (simp add: mask_eq_exp_minus_1)

lemma mask23: "(0x7FFFFF :: 32 word) = mask 23"
  by (simp add: mask_eq_exp_minus_1)

lemma mod_shift:
  fixes n a m :: nat
  assumes "a \<le> n" "n - a < m" "a mod m = 0"
  shows "n mod m = n - a"
proof -
  have "n = (n - a) + a" using assms(1) by simp
  then have "n mod m = ((n - a) + a) mod m" by simp
  also have "\<dots> = ((n - a) mod m + a mod m) mod m" by (simp only: mod_add_eq)
  also have "\<dots> = n - a" using assms(2,3) by simp
  finally show ?thesis .
qed

lemma unat_and18: "unat ((a :: 32 word) AND 0x3FFFF) = unat a mod 2 ^ 18"
  unfolding mask18
  by (simp add: take_bit_eq_mask[symmetric] unsigned_take_bit_eq take_bit_eq_mod unat_mod)

lemma unat_and19: "unat ((a :: 32 word) AND 0x7FFFF) = unat a mod 2 ^ 19"
  unfolding mask19
  by (simp add: take_bit_eq_mask[symmetric] unsigned_take_bit_eq take_bit_eq_mod unat_mod)

lemma unat_and23: "unat ((a :: 32 word) AND 0x7FFFFF) = unat a mod 2 ^ 23"
  unfolding mask23
  by (simp add: take_bit_eq_mask[symmetric] unsigned_take_bit_eq take_bit_eq_mod unat_mod)

lemma unat_mul4: "unat (a :: 32 word) \<le> 0x7FFFFF \<Longrightarrow> unat (a * 4) = 4 * unat a"
  by (simp add: unat_word_ariths)

lemma off_8c: "(addr :: 32 word) \<le> 0x7FFFF \<Longrightarrow> unat (addr * 4) = 4 * unat addr"
  by (simp add: word_le_nat_alt unat_mul4)

lemma off_8e:
  assumes "(0x800000 :: 32 word) \<le> addr" "addr \<le> 0x83FFFF"
  shows "unat ((addr AND 0x3FFFF) * 4) = 4 * (unat addr - 0x800000)"
proof -
  have r: "0x800000 \<le> unat addr" "unat addr \<le> 0x83FFFF"
    using assms by (simp_all add: word_le_nat_alt)
  have "unat addr mod 2 ^ 18 = unat addr - 0x800000"
    using r by (intro mod_shift) simp_all
  then have m: "unat (addr AND 0x3FFFF) = unat addr - 0x800000"
    by (simp only: unat_and18)
  have "unat ((addr AND 0x3FFFF) * 4) = 4 * unat (addr AND 0x3FFFF)"
    using r by (intro unat_mul4) (simp add: m)
  then show ?thesis by (simp only: m)
qed

lemma off_poly:
  assumes "(0x1000000 :: 32 word) \<le> addr" "addr \<le> 0x107FFFF"
  shows "unat ((addr AND 0x7FFFF) * 4) = 4 * (unat addr - 0x1000000)"
proof -
  have r: "0x1000000 \<le> unat addr" "unat addr \<le> 0x107FFFF"
    using assms by (simp_all add: word_le_nat_alt)
  have "unat addr mod 2 ^ 19 = unat addr - 0x1000000"
    using r by (intro mod_shift) simp_all
  then have m: "unat (addr AND 0x7FFFF) = unat addr - 0x1000000"
    by (simp only: unat_and19)
  have "unat ((addr AND 0x7FFFF) * 4) = 4 * unat (addr AND 0x7FFFF)"
    using r by (intro unat_mul4) (simp add: m)
  then show ?thesis by (simp only: m)
qed

lemma off_vrom:
  assumes "(0x1800000 :: 32 word) \<le> addr" "addr \<le> 0x1FFFFFF"
  shows "unat ((addr AND 0x7FFFFF) * 4) = 4 * (unat addr - 0x1800000)"
proof -
  have r: "0x1800000 \<le> unat addr" "unat addr \<le> 0x1FFFFFF"
    using assms by (simp_all add: word_le_nat_alt)
  have "unat addr mod 2 ^ 23 = unat addr - 0x1800000"
    using r by (intro mod_shift) simp_all
  then have m: "unat (addr AND 0x7FFFFF) = unat addr - 0x1800000"
    by (simp only: unat_and23)
  have "unat ((addr AND 0x7FFFFF) * 4) = 4 * unat (addr AND 0x7FFFFF)"
    using r by (intro unat_mul4) (simp add: m)
  then show ?thesis by (simp only: m)
qed

text \<open>The chain of range tests, read as a choice among the declared regions.\<close>

lemma translate_cases:
  "translate_r3d_address addr =
     (if in_r3d_range Culling_ram_8c addr then Some (Culling_ram_8c, addr * 4)
      else if in_r3d_range Culling_ram_8e addr then
        Some (Culling_ram_8e, (addr AND 0x3FFFF) * 4)
      else if in_r3d_range Polygon_ram addr then Some (Polygon_ram, (addr AND 0x7FFFF) * 4)
      else if in_r3d_range Vrom addr then Some (Vrom, (addr AND 0x7FFFFF) * 4)
      else None)"
  by (simp add: translate_r3d_address_def in_r3d_range_def Let_def)

lemma in_range_unique: "in_r3d_range b addr \<Longrightarrow> in_r3d_range b' addr \<Longrightarrow> b = b'"
  by (cases b; cases b'; simp add: in_r3d_range_def word_le_nat_alt)

lemma in_range_offset:
  "in_r3d_range b addr \<Longrightarrow>
     \<exists>off. translate_r3d_address addr = Some (b, off)
       \<and> unat off = 4 * (unat addr - unat (r3d_start b))"
proof (cases b)
  case Culling_ram_8c
  assume "in_r3d_range b addr"
  then show ?thesis using Culling_ram_8c
    by (simp add: translate_cases) (simp add: in_r3d_range_def off_8c)
next
  case Culling_ram_8e
  assume a: "in_r3d_range b addr"
  then have "\<not> in_r3d_range Culling_ram_8c addr"
    using in_range_unique[of b addr Culling_ram_8c] Culling_ram_8e by auto
  then show ?thesis using a Culling_ram_8e
    by (simp add: translate_cases) (simp add: in_r3d_range_def off_8e)
next
  case Polygon_ram
  assume a: "in_r3d_range b addr"
  then have "\<not> in_r3d_range Culling_ram_8c addr" "\<not> in_r3d_range Culling_ram_8e addr"
    using in_range_unique[of b addr Culling_ram_8c] in_range_unique[of b addr Culling_ram_8e]
      Polygon_ram by auto
  then show ?thesis using a Polygon_ram
    by (simp add: translate_cases) (simp add: in_r3d_range_def off_poly)
next
  case Vrom
  assume a: "in_r3d_range b addr"
  then have "\<not> in_r3d_range Culling_ram_8c addr" "\<not> in_r3d_range Culling_ram_8e addr"
      "\<not> in_r3d_range Polygon_ram addr"
    using in_range_unique[of b addr Culling_ram_8c] in_range_unique[of b addr Culling_ram_8e]
      in_range_unique[of b addr Polygon_ram] Vrom by auto
  then show ?thesis using a Vrom
    by (simp add: translate_cases) (simp add: in_r3d_range_def off_vrom)
qed

lemma translate_Some_range:
  "translate_r3d_address addr = Some (b, off) \<Longrightarrow> in_r3d_range b addr"
  by (auto simp: translate_cases split: if_splits)

lemma translate_None_iff:
  "translate_r3d_address addr = None \<longleftrightarrow> (\<forall>b. \<not> in_r3d_range b addr)"
proof
  assume n: "translate_r3d_address addr = None"
  show "\<forall>b. \<not> in_r3d_range b addr"
  proof
    fix b show "\<not> in_r3d_range b addr"
      using n in_range_offset[of b addr] by auto
  qed
next
  assume a: "\<forall>b. \<not> in_r3d_range b addr"
  then show "translate_r3d_address addr = None"
    by (simp add: translate_cases)
qed

lemma range_extent: "in_r3d_range b addr \<Longrightarrow> 4 * (unat addr - unat (r3d_start b)) \<le> r3d_max_offset b"
  by (cases b) (auto simp add: in_r3d_range_def word_le_nat_alt)

text \<open>
  C1. Address resolution is total and unambiguous. An address inside a declared region
  resolves to a pointer into that region's buffer, at the byte offset of the word it
  names; a pointer that is returned is into the buffer of a region that contains the
  address, and no other region contains it; and the result is NULL exactly when the
  address lies in none of the four ranges.
\<close>

theorem translate_r3d_address_resolves:
  "(\<forall>b. in_r3d_range b addr \<longrightarrow>
      (\<exists>off. translate_r3d_address addr = Some (b, off)
         \<and> unat off = 4 * (unat addr - unat (r3d_start b))))
   \<and> (\<forall>b off. translate_r3d_address addr = Some (b, off) \<longrightarrow>
         in_r3d_range b addr \<and> (\<forall>b'. in_r3d_range b' addr \<longrightarrow> b' = b))
   \<and> ((translate_r3d_address addr = None) = (\<forall>b. \<not> in_r3d_range b addr))"
proof (intro conjI allI impI)
  fix b assume "in_r3d_range b addr"
  then show "\<exists>off. translate_r3d_address addr = Some (b, off)
      \<and> unat off = 4 * (unat addr - unat (r3d_start b))"
    by (rule in_range_offset)
next
  fix b off assume "translate_r3d_address addr = Some (b, off)"
  then show "in_r3d_range b addr" by (rule translate_Some_range)
next
  fix b off b'
  assume "translate_r3d_address addr = Some (b, off)" and b': "in_r3d_range b' addr"
  then have "in_r3d_range b addr" by (intro translate_Some_range)
  with b' show "b' = b" by (rule in_range_unique)
next
  show "(translate_r3d_address addr = None) = (\<forall>b. \<not> in_r3d_range b addr)"
    by (rule translate_None_iff)
qed

theorem translate_r3d_address_resolves_witness:
  "in_r3d_range Culling_ram_8e 0x800600
   \<and> (\<exists>off. translate_r3d_address 0x800600 = Some (Culling_ram_8e, off) \<and> unat off = 0x1800)
   \<and> translate_r3d_address 0x18AA963 = Some (Vrom, 0x2AA58C)
   \<and> in_r3d_range Vrom 0x18AA963
   \<and> translate_r3d_address 0x900000 = None"
proof -
  have r: "in_r3d_range Culling_ram_8e 0x800600"
    by (simp add: in_r3d_range_def)
  have v: "translate_r3d_address 0x18AA963 = Some (Vrom, 0x2AA58C)"
    by (simp add: translate_r3d_address_def)
  have n: "\<forall>b. \<not> in_r3d_range b 0x900000"
  proof
    fix b show "\<not> in_r3d_range b 0x900000"
      by (cases b) (simp_all add: in_r3d_range_def)
  qed
  note t = translate_r3d_address_resolves
  from t[of "0x800600"] r
  have 1: "\<exists>off. translate_r3d_address 0x800600 = Some (Culling_ram_8e, off)
      \<and> unat off = 4 * (unat (0x800600 :: 32 word) - unat (r3d_start Culling_ram_8e))"
    by blast
  from t[of "0x18AA963"] v have 2: "in_r3d_range Vrom 0x18AA963" by blast
  from t[of "0x900000"] n have 3: "translate_r3d_address 0x900000 = None" by blast
  from 1 have "\<exists>off. translate_r3d_address 0x800600 = Some (Culling_ram_8e, off)
      \<and> unat off = 0x1800" by simp
  with r v 2 3 show ?thesis by blast
qed

text \<open>
  C10. For every address one of the four range tests accepts, the byte offset added to
  the region's base pointer is at most four times the region's last word index:
  \<open>4 * 0x7FFFF\<close> for the 8C culling RAM and the polygon RAM, \<open>4 * 0x3FFFF\<close> for
  the 8E culling RAM and \<open>4 * 0x7FFFFF\<close> for the VROM. The offset is four times the
  masked address, the multiplication by 4 not wrapping around.
\<close>

theorem translate_r3d_address_offset_bound:
  "translate_r3d_address addr = Some (b, off) \<Longrightarrow>
     unat off \<le> r3d_max_offset b \<and> unat off = 4 * (unat addr - unat (r3d_start b))"
proof -
  assume t: "translate_r3d_address addr = Some (b, off)"
  then have r: "in_r3d_range b addr" by (rule translate_Some_range)
  from in_range_offset[OF r] t
  have o: "unat off = 4 * (unat addr - unat (r3d_start b))" by auto
  with range_extent[OF r] show ?thesis by simp
qed

theorem translate_r3d_address_offset_bound_witness:
  "translate_r3d_address 0x1FFFFFF = Some (Vrom, 0x1FFFFFC)
   \<and> unat (0x1FFFFFC :: 32 word) \<le> r3d_max_offset Vrom
   \<and> unat (0x1FFFFFC :: 32 word) = 4 * 0x7FFFFF"
proof -
  have t: "translate_r3d_address 0x1FFFFFF = Some (Vrom, 0x1FFFFFC)"
    by (simp add: translate_r3d_address_def)
  from translate_r3d_address_offset_bound[OF t] t show ?thesis by simp
qed

subsection \<open>Word fetches\<close>

lemma byte_high_bit [simp]:
  "\<not> bit (b :: 8 word) (8 + n)" "\<not> bit (b :: 8 word) (16 + n)" "\<not> bit (b :: 8 word) (24 + n)"
  by (auto dest: bit_imp_le_length)

lemma maskFF: "(0xFF :: 32 word) = mask 8"
  by (simp add: mask_eq_exp_minus_1)

lemma maskFF00: "(0xFF00 :: 32 word) = push_bit 8 (mask 8)"
  by (simp add: mask_eq_exp_minus_1)

lemma bytes32_load32: "bytes32 (load32 m a) = [m a, m (a + 1), m (a + 2), m (a + 3)]"
  unfolding bytes32_def load32_def
  apply simp
  apply (intro conjI; rule bit_eqI; simp add: bit_simps)
  done

lemma BSWAP32_bytes: "bytes32 (BSWAP32 x) = rev (bytes32 x)"
  unfolding bytes32_def BSWAP32_def maskFF maskFF00
  apply simp
  apply (intro conjI; rule bit_eqI; simp add: bit_simps)
  done

lemma word_of_bytes32: "word_of_bytes (bytes32 x) = x"
proof (rule bit_eqI)
  fix n
  assume "possible_bit TYPE(32 word) n"
  then have n: "n < 32" by (simp add: possible_bit_word)
  consider "n < 8" | "8 \<le> n" "n < 16" | "16 \<le> n" "n < 24" | "24 \<le> n" "n < 32"
    using n by linarith
  then show "bit (word_of_bytes (bytes32 x)) n = bit x n"
    by cases (auto simp add: word_of_bytes_def bytes32_def bit_simps)
qed

lemma bytes32_inj:
  assumes "bytes32 x = bytes32 y"
  shows "x = y"
proof -
  have "word_of_bytes (bytes32 x) = word_of_bytes (bytes32 y)"
    by (simp only: assms)
  then show ?thesis by (simp only: word_of_bytes32)
qed

text \<open>
  C4. The big-endian fetch of any four bytes is the byte reversal of the little-endian
  fetch of the same bytes: \<open>GETWORDBE\<close> is \<open>BSWAP32\<close> of \<open>GETWORDLE\<close>, the
  little-endian fetch holds the four bytes in memory order, and the big-endian fetch
  holds them in the opposite order.
\<close>

theorem getword_be_is_swapped_le:
  "GETWORDBE m a = BSWAP32 (GETWORDLE m a)
   \<and> bytes32 (GETWORDLE m a) = [m a, m (a + 1), m (a + 2), m (a + 3)]
   \<and> bytes32 (GETWORDBE m a) = [m (a + 3), m (a + 2), m (a + 1), m a]
   \<and> bytes32 (GETWORDBE m a) = rev (bytes32 (GETWORDLE m a))"
  by (simp only: GETWORDBE_def GETWORDLE_def BSWAP32_bytes bytes32_load32 rev.simps
      append.simps simp_thms)



subsection \<open>Model drawing on a byte-reversed buffer\<close>

lemma swap_words_at:
  assumes "a mod 4 = 0"
  shows "swap_words m a = m (a + 3)" "swap_words m (a + 1) = m (a + 2)"
    "swap_words m (a + 2) = m (a + 1)" "swap_words m (a + 3) = m a"
proof -
  have e: "4 * (a div 4) + (3 - a mod 4) = a + 3"
    "4 * ((a + 1) div 4) + (3 - (a + 1) mod 4) = a + 2"
    "4 * ((a + 2) div 4) + (3 - (a + 2) mod 4) = a + 1"
    "4 * ((a + 3) div 4) + (3 - (a + 3) mod 4) = a"
    using assms by presburger+
  show "swap_words m a = m (a + 3)" "swap_words m (a + 1) = m (a + 2)"
    "swap_words m (a + 2) = m (a + 1)" "swap_words m (a + 3) = m a"
    unfolding swap_words_def by (simp_all only: e)
qed

lemma swap_words_at0:
  assumes "a mod 4 = 0"
  shows "swap_words m (a + 0) = m (a + 3)" "swap_words m (a + 3) = m (a + 0)"
  using swap_words_at[OF assms, of m] by simp_all

text \<open>A little-endian fetch from the reversed buffer at an aligned offset is the
  big-endian fetch from the original.\<close>

lemma GETWORDLE_swap:
  assumes "a mod 4 = 0"
  shows "GETWORDLE (swap_words m) a = GETWORDBE m a"
proof -
  have "bytes32 (load32 (swap_words m) a) = bytes32 (BSWAP32 (load32 m a))"
    by (simp only: bytes32_load32 BSWAP32_bytes swap_words_at[OF assms] rev.simps append.simps)
  then show ?thesis
    unfolding GETWORDLE_def GETWORDBE_def by (rule bytes32_inj)
qed

lemma read_vertex_swap:
  assumes "buf mod 4 = 0"
  shows "read_vertex fl GETWORDLE (swap_words m) buf i = read_vertex fl GETWORDBE m buf i"
proof -
  have "(buf + 0x1C + i * 16 + 0 * 4) mod 4 = 0" "(buf + 0x1C + i * 16 + 1 * 4) mod 4 = 0"
    "(buf + 0x1C + i * 16 + 2 * 4) mod 4 = 0" "(buf + 0x1C + i * 16 + 3 * 4) mod 4 = 0"
    using assms by presburger+
  then show ?thesis
    unfolding read_vertex_def by (simp only: GETWORDLE_swap)
qed

lemma load_verts_swap:
  "buf mod 4 = 0 \<Longrightarrow>
   load_verts fl GETWORDLE (swap_words m) buf first n v
     = load_verts fl GETWORDBE m buf first n v"
  by (induction n) (simp_all add: read_vertex_swap)

lemma quad_switch_swap:
  "buf mod 4 = 0 \<Longrightarrow>
   quad_switch fl GETWORDLE (swap_words m) buf sel v prev_v
     = quad_switch fl GETWORDBE m buf sel v prev_v"
  unfolding quad_switch_def by (simp only: load_verts_swap)

lemma tri_switch_swap:
  "buf mod 4 = 0 \<Longrightarrow>
   tri_switch fl GETWORDLE (swap_words m) buf sel v prev_v
     = tri_switch fl GETWORDBE m buf sel v prev_v"
  unfolding tri_switch_def by (simp only: load_verts_swap read_vertex_swap)

text \<open>Every advance of \<^verbatim>\<open>buf\<close> is a multiple of four bytes, so the pointer stays
  aligned with the words of the model.\<close>

lemma quad_switch_aligned:
  "buf mod 4 = 0 \<Longrightarrow> snd (quad_switch fl getw m buf sel v prev_v) mod 4 = 0"
  unfolding quad_switch_def by (simp add: mod_add_left_eq[symmetric] split: if_splits)

lemma tri_switch_aligned:
  "buf mod 4 = 0 \<Longrightarrow> snd (tri_switch fl getw m buf sel v prev_v) mod 4 = 0"
  unfolding tri_switch_def by (simp add: mod_add_left_eq[symmetric] split: if_splits)

lemma poly_be_aligned:
  "buf mod 4 = 0 \<Longrightarrow> p_buf (poly_be fl grid m buf v prev_v) mod 4 = 0"
  using quad_switch_aligned[of buf fl GETWORDBE m "m (buf + 0 * 4 + 3) AND 0x0F" v prev_v]
    tri_switch_aligned[of buf fl GETWORDBE m "m (buf + 0 * 4 + 3) AND 0x0F" v prev_v]
  unfolding poly_be_def by (simp add: Let_def case_prod_beta)

lemma poly_le_swap:
  assumes "buf mod 4 = 0"
  shows "poly_le fl grid (swap_words m) buf v prev_v = poly_be fl grid m buf v prev_v"
proof -
  have al: "(buf + 0 * 4) mod 4 = 0" "(buf + 1 * 4) mod 4 = 0" "(buf + 3 * 4) mod 4 = 0"
    "(buf + 4 * 4) mod 4 = 0" "(buf + 5 * 4) mod 4 = 0" "(buf + 6 * 4) mod 4 = 0"
    using assms by presburger+
  note g = GETWORDLE_swap[OF al(3), of m] GETWORDLE_swap[OF al(4), of m]
    GETWORDLE_swap[OF al(5), of m]
  note c = swap_words_at0[OF al(1), of m] swap_words_at0[OF al(2), of m]
    swap_words_at0[OF al(4), of m] swap_words_at[OF al(4), of m]
    swap_words_at0[OF al(6), of m]
  show ?thesis
    unfolding poly_le_def poly_be_def
    by (simp only: g c quad_switch_swap[OF assms] tri_switch_swap[OF assms])
qed

lemma draw_loop_swap:
  "buf mod 4 = 0 \<Longrightarrow>
   draw_loop_le fl grid (swap_words m) fuel buf v prev_v
     = draw_loop_be fl grid m fuel buf v prev_v"
proof (induction fuel arbitrary: buf v prev_v)
  case 0
  show ?case by simp
next
  case (Suc fuel)
  have "draw_loop_le fl grid (swap_words m) fuel (p_buf (poly_be fl grid m buf v prev_v)) v' p'
      = draw_loop_be fl grid m fuel (p_buf (poly_be fl grid m buf v prev_v)) v' p'" for v' p'
    using Suc.prems by (intro Suc.IH poly_be_aligned)
  then show ?case
    by (simp add: poly_le_swap[OF Suc.prems] Let_def)
qed

lemma draw_model_swap:
  "draw_model_le fl grid fuel (map_option swap_words buf) v prev_v
     = draw_model_be fl grid fuel buf v prev_v"
proof (cases buf)
  case None
  then show ?thesis by (simp add: draw_model_le_def draw_model_be_def)
next
  case (Some m)
  have "GETWORDLE (swap_words m) 0 = GETWORDBE m 0" by (rule GETWORDLE_swap) simp
  then show ?thesis using Some
    by (simp add: draw_model_le_def draw_model_be_def draw_loop_swap)
qed

text \<open>The loop ends with the pass that reads a set stop bit, whatever passes remain.\<close>

lemma draw_loop_be_last:
  "p_stop (poly_be fl grid m buf v prev_v) \<noteq> 0 \<Longrightarrow>
   draw_loop_be fl grid m (Suc fuel) buf v prev_v
     = (p_calls (poly_be fl grid m buf v prev_v), True)"
  by (simp add: Let_def)

text \<open>
  C8. For every model buffer, \<^verbatim>\<open>draw_model_le\<close> on the buffer whose aligned 32-bit
  words are byte-reversed computes what \<^verbatim>\<open>draw_model_be\<close> computes on the original.
  Every pass of the loop at a word-aligned position leaves the same local state (texture
  width and height, u and v base, texture enable, stop flag, vertices, saved vertices,
  advanced buffer position) and makes the same OpenGL calls with the same arguments; the
  two functions make the same sequence of calls and end after the same number of passes,
  for every bound on the number of passes, from every initial content of the local
  arrays, and for a NULL pointer as well.
\<close>

theorem draw_model_le_on_swapped_buffer:
  "poly_le fl grid (swap_words m) (4 * k) v prev_v = poly_be fl grid m (4 * k) v prev_v
   \<and> draw_model_le fl grid fuel (map_option swap_words buf) v prev_v
       = draw_model_be fl grid fuel buf v prev_v"
proof
  show "poly_le fl grid (swap_words m) (4 * k) v prev_v = poly_be fl grid m (4 * k) v prev_v"
    by (rule poly_le_swap) simp
  show "draw_model_le fl grid fuel (map_option swap_words buf) v prev_v
       = draw_model_be fl grid fuel buf v prev_v"
    by (rule draw_model_swap)
qed

subsection \<open>The texture grid\<close>

lemma texture_grid_writes_example: "texture_grid_writes 0x120F80 = [4032, 4096]"
  by (simp add: texture_grid_writes_def Let_def upt_rec)

lemma upload_texture_example:
  assumes "length g = 64 * 64"
  shows "r3dgl_upload_texture 0x120F80 tex_id g = Inl (Out_of_bounds 4096)"
  using assms
  by (simp add: r3dgl_upload_texture_def texture_grid_writes_example grid_store_def)

text \<open>
  C9. The header \<open>0x120F80\<close> (position bits 7 to 11 all set and bit 20 set, so
  \<open>ypos / 32 = 63\<close>; bits 17 and 18 equal to 1, so two grid rows; \<open>xpos = 0\<close>) makes
  \<^verbatim>\<open>r3dgl_upload_texture\<close> store to index 4032 and then to index 4096, one past the
  last element of the 4096-entry \<^verbatim>\<open>texture_grid\<close>.
\<close>

theorem upload_texture_out_of_bounds:
  "texture_grid_writes 0x120F80 = [4032, 4096]
   \<and> r3dgl_upload_texture 0x120F80 tex_id (replicate (64 * 64) 0) = Inl (Out_of_bounds 4096)"
  using upload_texture_example[of "replicate (64 * 64) 0" tex_id]
  by (simp add: texture_grid_writes_example)



subsection \<open>Hot threshold\<close>

lemma enter_n_below:
  assumes "\<not> interpret_only cfg"
  shows "0 < n \<Longrightarrow> n < hot_threshold cfg \<Longrightarrow>
     enter_n cfg code n None = Some \<lparr>count = n, bb_ptr = NULL, interp_size = 0, native_size = 0,
        interp_exec_time = 0, native_exec_time = 0\<rparr>"
proof (induction n)
  case 0
  then show ?case by simp
next
  case (Suc n)
  show ?case
  proof (cases "n = 0")
    case True
    then show ?thesis using Suc.prems assms by (simp add: enter_block_def)
  next
    case False
    then have "enter_n cfg code n None = Some \<lparr>count = n, bb_ptr = NULL, interp_size = 0,
        native_size = 0, interp_exec_time = 0, native_exec_time = 0\<rparr>"
      using Suc by simp
    then show ?thesis using Suc.prems assms by (simp add: enter_block_def)
  qed
qed

lemma enter_n_reach:
  assumes "\<not> interpret_only cfg" "0 < hot_threshold cfg"
  shows "enter_n cfg code (hot_threshold cfg) None =
     Some \<lparr>count = hot_threshold cfg, bb_ptr = code, interp_size = 0, native_size = 0,
        interp_exec_time = 0, native_exec_time = 0\<rparr>"
proof -
  obtain k where k: "hot_threshold cfg = Suc k" using assms(2) by (cases "hot_threshold cfg") auto
  show ?thesis
  proof (cases "k = 0")
    case True
    then show ?thesis using k assms by (simp add: enter_block_def)
  next
    case False
    then have "enter_n cfg code k None = Some \<lparr>count = k, bb_ptr = NULL, interp_size = 0,
        native_size = 0, interp_exec_time = 0, native_exec_time = 0\<rparr>"
      using enter_n_below[OF assms(1), of k code] k by simp
    then show ?thesis using k assms by (simp add: enter_block_def)
  qed
qed

lemma enter_n_above:
  assumes "\<not> interpret_only cfg" "0 < hot_threshold cfg" "code \<noteq> NULL"
  shows "hot_threshold cfg \<le> n \<Longrightarrow>
     enter_n cfg code n None =
     Some \<lparr>count = hot_threshold cfg, bb_ptr = code, interp_size = 0, native_size = 0,
        interp_exec_time = 0, native_exec_time = 0\<rparr>"
proof (induction n)
  case 0
  then show ?case using assms by simp
next
  case (Suc n)
  show ?case
  proof (cases "hot_threshold cfg = Suc n")
    case True
    then show ?thesis using enter_n_reach[OF assms(1,2), of code] by simp
  next
    case False
    then have "hot_threshold cfg \<le> n" using Suc.prems by simp
    then show ?thesis using Suc.IH assms by (simp add: enter_block_def)
  qed
qed

lemma state_after_entries:
  assumes "\<not> interpret_only cfg" "DRPPC_ZERO_THRESHOLD \<le> hot_threshold cfg" "code \<noteq> NULL"
  shows "state_of (enter_n cfg code n None) =
     (if n = 0 then Uncompiled else if n < hot_threshold cfg then Interpreted else Native)"
proof -
  have t: "0 < hot_threshold cfg" using assms(2) by (simp add: DRPPC_ZERO_THRESHOLD_def)
  consider "n = 0" | "0 < n" "n < hot_threshold cfg" | "hot_threshold cfg \<le> n" "0 < n"
    using t by linarith
  then show ?thesis
  proof cases
    case 1
    then show ?thesis by (simp add: state_of_def)
  next
    case 2
    then show ?thesis using enter_n_below[OF assms(1), of n code] by (simp add: state_of_def)
  next
    case 3
    then show ?thesis using enter_n_above[OF assms(1) t assms(3), of n] assms(3)
      by (simp add: state_of_def)
  qed
qed

lemma count_after_entries:
  assumes "\<not> interpret_only cfg" "DRPPC_ZERO_THRESHOLD \<le> hot_threshold cfg" "code \<noteq> NULL"
  shows "map_option count (enter_n cfg code n None) =
     (if n = 0 then None else Some (min n (hot_threshold cfg)))"
proof -
  have t: "0 < hot_threshold cfg" using assms(2) by (simp add: DRPPC_ZERO_THRESHOLD_def)
  consider "n = 0" | "0 < n" "n < hot_threshold cfg" | "hot_threshold cfg \<le> n" "0 < n"
    using t by linarith
  then show ?thesis
  proof cases
    case 1
    then show ?thesis by simp
  next
    case 2
    then show ?thesis using enter_n_below[OF assms(1), of n code] by simp
  next
    case 3
    then show ?thesis using enter_n_above[OF assms(1) t assms(3), of n] by simp
  qed
qed

text \<open>One entry of a block that is not native counts the entry, and the block is native
  afterwards exactly when the new count has reached the threshold.\<close>

lemma enter_block_interpreted:
  assumes "\<not> interpret_only cfg" "code \<noteq> NULL" "bb_ptr bb = NULL"
  shows "count (enter_block cfg code (Some bb)) = count bb + 1"
    and "(state_of (Some (enter_block cfg code (Some bb))) = Native)
           = (hot_threshold cfg \<le> count bb + 1)"
    and "(state_of (Some (enter_block cfg code (Some bb))) = Interpreted)
           = (count bb + 1 < hot_threshold cfg)"
  using assms by (auto simp add: enter_block_def state_of_def Let_def)

lemma enter_block_first:
  assumes "\<not> interpret_only cfg" "code \<noteq> NULL"
  shows "count (enter_block cfg code None) = 1"
    and "(state_of (Some (enter_block cfg code None)) = Native) = (hot_threshold cfg \<le> 1)"
  using assms by (auto simp add: enter_block_def state_of_def Let_def)

text \<open>
  C2. For every hot threshold \<open>T\<close> that is at least the minimum
  \<^verbatim>\<open>DRPPC_ZERO_THRESHOLD = 1\<close>, with code generation enabled. The execution count of
  a block after \<open>n\<close> entries is \<open>n\<close> up to the threshold and stays at \<open>T\<close> from
  then on; the block is native exactly when its execution count is \<open>T\<close>, and
  interpreted exactly when it has a count below \<open>T\<close>; so it is native after \<open>n\<close>
  entries exactly when \<open>n\<close> has reached \<open>T\<close>. At count \<open>T - 1\<close> it is not native
  (interpreted, or never seen when \<open>T - 1 = 0\<close>); the entry that takes the count to
  \<open>T\<close> promotes it. A single entry of any block that is not native increases its count
  by one and leaves it native exactly when the new count has reached \<open>T\<close>. With \<open>T\<close>
  equal to the minimum the very first entry, which takes the count to 1, makes the block
  native.
\<close>

theorem hot_threshold_promotion:
  assumes "DRPPC_ZERO_THRESHOLD \<le> hot_threshold cfg" "\<not> interpret_only cfg" "code \<noteq> NULL"
  shows "DRPPC_ZERO_THRESHOLD = 1
    \<and> state_of (enter_n cfg code n None) =
        (if n = 0 then Uncompiled else if n < hot_threshold cfg then Interpreted else Native)
    \<and> (state_of (enter_n cfg code n None) = Native) = (hot_threshold cfg \<le> n)
    \<and> state_of (enter_n cfg code (hot_threshold cfg) None) = Native
    \<and> state_of (enter_n cfg code (hot_threshold cfg - 1) None) =
        (if hot_threshold cfg = DRPPC_ZERO_THRESHOLD then Uncompiled else Interpreted)
    \<and> (if hot_threshold cfg = DRPPC_ZERO_THRESHOLD
        then state_of (enter_n cfg code 1 None) = Native
        else map_option count (enter_n cfg code (hot_threshold cfg - 1) None)
               = Some (hot_threshold cfg - 1))
    \<and> map_option count (enter_n cfg code n None) =
        (if n = 0 then None else Some (min n (hot_threshold cfg)))
    \<and> map_option count (enter_n cfg code (hot_threshold cfg) None) = Some (hot_threshold cfg)
    \<and> (state_of (enter_n cfg code n None) = Native) =
        (map_option count (enter_n cfg code n None) = Some (hot_threshold cfg))
    \<and> (state_of (enter_n cfg code n None) = Interpreted) =
        (\<exists>c. map_option count (enter_n cfg code n None) = Some c \<and> c < hot_threshold cfg)
    \<and> (bb_ptr bb = NULL \<longrightarrow>
          count (enter_block cfg code (Some bb)) = count bb + 1
          \<and> (state_of (Some (enter_block cfg code (Some bb))) = Native)
               = (hot_threshold cfg \<le> count bb + 1)
          \<and> (state_of (Some (enter_block cfg code (Some bb))) = Interpreted)
               = (count bb + 1 < hot_threshold cfg))
    \<and> count (enter_block cfg code None) = 1
    \<and> (state_of (Some (enter_block cfg code None)) = Native) = (hot_threshold cfg \<le> 1)"
proof -
  note st = state_after_entries[OF assms(2) assms(1) assms(3)]
  note ct = count_after_entries[OF assms(2) assms(1) assms(3)]
  have t: "0 < hot_threshold cfg" using assms(1) by (simp add: DRPPC_ZERO_THRESHOLD_def)
  have z: "DRPPC_ZERO_THRESHOLD = 1" by (simp add: DRPPC_ZERO_THRESHOLD_def)
  have a: "state_of (enter_n cfg code n None) =
        (if n = 0 then Uncompiled else if n < hot_threshold cfg then Interpreted else Native)"
    by (rule st)
  have b: "(state_of (enter_n cfg code n None) = Native) = (hot_threshold cfg \<le> n)"
    using t by (auto simp add: st)
  have c: "state_of (enter_n cfg code (hot_threshold cfg) None) = Native"
    using t by (simp add: st)
  have d: "state_of (enter_n cfg code (hot_threshold cfg - 1) None) =
        (if hot_threshold cfg = DRPPC_ZERO_THRESHOLD then Uncompiled else Interpreted)"
    using t by (auto simp add: st z)
  have e: "if hot_threshold cfg = DRPPC_ZERO_THRESHOLD
        then state_of (enter_n cfg code 1 None) = Native
        else map_option count (enter_n cfg code (hot_threshold cfg - 1) None)
               = Some (hot_threshold cfg - 1)"
  proof (cases "hot_threshold cfg = DRPPC_ZERO_THRESHOLD")
    case True
    then have "state_of (enter_n cfg code 1 None) = Native"
      using c by (simp only: z)
    with True show ?thesis by simp
  next
    case False
    then have "0 < hot_threshold cfg - 1" "hot_threshold cfg - 1 < hot_threshold cfg"
      using t by (simp_all add: z)
    then have "map_option count (enter_n cfg code (hot_threshold cfg - 1) None)
               = Some (hot_threshold cfg - 1)"
      using enter_n_below[OF assms(2), of "hot_threshold cfg - 1" code] by simp
    with False show ?thesis by simp
  qed
  have f: "map_option count (enter_n cfg code n None) =
        (if n = 0 then None else Some (min n (hot_threshold cfg)))"
    by (rule ct)
  have g: "map_option count (enter_n cfg code (hot_threshold cfg) None)
        = Some (hot_threshold cfg)"
    using t by (simp add: ct)
  have h: "(state_of (enter_n cfg code n None) = Native) =
        (map_option count (enter_n cfg code n None) = Some (hot_threshold cfg))"
    using t by (simp only: b f) auto
  have i: "(state_of (enter_n cfg code n None) = Interpreted) =
        (\<exists>c. map_option count (enter_n cfg code n None) = Some c \<and> c < hot_threshold cfg)"
    using t by (simp only: a f) auto
  have j: "bb_ptr bb = NULL \<longrightarrow>
          count (enter_block cfg code (Some bb)) = count bb + 1
          \<and> (state_of (Some (enter_block cfg code (Some bb))) = Native)
               = (hot_threshold cfg \<le> count bb + 1)
          \<and> (state_of (Some (enter_block cfg code (Some bb))) = Interpreted)
               = (count bb + 1 < hot_threshold cfg)"
    using enter_block_interpreted[OF assms(2) assms(3), of bb] by blast
  have k: "count (enter_block cfg code None) = 1"
    by (rule enter_block_first(1)[OF assms(2) assms(3)])
  have l: "(state_of (Some (enter_block cfg code None)) = Native) = (hot_threshold cfg \<le> 1)"
    by (rule enter_block_first(2)[OF assms(2) assms(3)])
  show ?thesis by (intro conjI z a b c d e f g h i j k l)
qed

theorem hot_threshold_promotion_witness:
  "state_of (enter_n \<lparr>interpret_only = False, Alloc = (\<lambda>n. Addr 64), native_cache_size = 4096,
       native_cache_guard_size = 256, intermediate_cache_size = 4096,
       intermediate_cache_guard_size = 256, hot_threshold = 5\<rparr> (Addr 128) 4 None) = Interpreted
   \<and> map_option count (enter_n \<lparr>interpret_only = False, Alloc = (\<lambda>n. Addr 64),
       native_cache_size = 4096, native_cache_guard_size = 256, intermediate_cache_size = 4096,
       intermediate_cache_guard_size = 256, hot_threshold = 5\<rparr> (Addr 128) 4 None) = Some 4
   \<and> state_of (enter_n \<lparr>interpret_only = False, Alloc = (\<lambda>n. Addr 64), native_cache_size = 4096,
       native_cache_guard_size = 256, intermediate_cache_size = 4096,
       intermediate_cache_guard_size = 256, hot_threshold = 5\<rparr> (Addr 128) 5 None) = Native
   \<and> map_option count (enter_n \<lparr>interpret_only = False, Alloc = (\<lambda>n. Addr 64),
       native_cache_size = 4096, native_cache_guard_size = 256, intermediate_cache_size = 4096,
       intermediate_cache_guard_size = 256, hot_threshold = 5\<rparr> (Addr 128) 5 None) = Some 5
   \<and> count (enter_block \<lparr>interpret_only = False, Alloc = (\<lambda>n. Addr 64),
       native_cache_size = 4096, native_cache_guard_size = 256, intermediate_cache_size = 4096,
       intermediate_cache_guard_size = 256, hot_threshold = 5\<rparr> (Addr 128)
         (Some \<lparr>count = 4, bb_ptr = NULL, interp_size = 0, native_size = 0,
            interp_exec_time = 0, native_exec_time = 0\<rparr>)) = 5
   \<and> state_of (Some (enter_block \<lparr>interpret_only = False, Alloc = (\<lambda>n. Addr 64),
       native_cache_size = 4096, native_cache_guard_size = 256, intermediate_cache_size = 4096,
       intermediate_cache_guard_size = 256, hot_threshold = 5\<rparr> (Addr 128)
         (Some \<lparr>count = 4, bb_ptr = NULL, interp_size = 0, native_size = 0,
            interp_exec_time = 0, native_exec_time = 0\<rparr>))) = Native
   \<and> state_of (enter_n \<lparr>interpret_only = False, Alloc = (\<lambda>n. Addr 64), native_cache_size = 4096,
       native_cache_guard_size = 256, intermediate_cache_size = 4096,
       intermediate_cache_guard_size = 256, hot_threshold = DRPPC_ZERO_THRESHOLD\<rparr>
         (Addr 128) 1 None) = Native
   \<and> map_option count (enter_n \<lparr>interpret_only = False, Alloc = (\<lambda>n. Addr 64),
       native_cache_size = 4096, native_cache_guard_size = 256, intermediate_cache_size = 4096,
       intermediate_cache_guard_size = 256, hot_threshold = DRPPC_ZERO_THRESHOLD\<rparr>
         (Addr 128) 1 None) = Some 1"
proof -
  let ?c5 = "\<lparr>interpret_only = False, Alloc = (\<lambda>n. Addr 64), native_cache_size = 4096,
       native_cache_guard_size = 256, intermediate_cache_size = 4096,
       intermediate_cache_guard_size = 256, hot_threshold = 5\<rparr>"
  let ?c1 = "\<lparr>interpret_only = False, Alloc = (\<lambda>n. Addr 64), native_cache_size = 4096,
       native_cache_guard_size = 256, intermediate_cache_size = 4096,
       intermediate_cache_guard_size = 256, hot_threshold = DRPPC_ZERO_THRESHOLD\<rparr>"
  let ?bb = "\<lparr>count = 4, bb_ptr = NULL, interp_size = 0, native_size = 0,
            interp_exec_time = 0, native_exec_time = 0\<rparr>"
  have h5: "DRPPC_ZERO_THRESHOLD \<le> hot_threshold ?c5" "\<not> interpret_only ?c5"
    and h1: "DRPPC_ZERO_THRESHOLD \<le> hot_threshold ?c1" "\<not> interpret_only ?c1"
    and n: "Addr 128 \<noteq> NULL"
    and p: "bb_ptr ?bb = NULL"
    by (simp_all add: DRPPC_ZERO_THRESHOLD_def)
  note t4 = hot_threshold_promotion[OF h5 n, of 4 ?bb]
  note t5 = hot_threshold_promotion[OF h5 n, of 5 ?bb]
  note t1 = hot_threshold_promotion[OF h1 n, of 1 ?bb]
  from t4 have a: "state_of (enter_n ?c5 (Addr 128) 4 None) = Interpreted"
    and a': "map_option count (enter_n ?c5 (Addr 128) 4 None) = Some 4"
    by simp_all
  from t5 have b: "state_of (enter_n ?c5 (Addr 128) 5 None) = Native"
    and b': "map_option count (enter_n ?c5 (Addr 128) 5 None) = Some 5"
    by simp_all
  from t4 p have s: "count (enter_block ?c5 (Addr 128) (Some ?bb)) = count ?bb + 1"
    and s': "(state_of (Some (enter_block ?c5 (Addr 128) (Some ?bb))) = Native)
          = (hot_threshold ?c5 \<le> count ?bb + 1)"
    by blast+
  from s have s1: "count (enter_block ?c5 (Addr 128) (Some ?bb)) = 5" by simp
  from s' have s2: "state_of (Some (enter_block ?c5 (Addr 128) (Some ?bb))) = Native" by simp
  from t1 have c: "state_of (enter_n ?c1 (Addr 128) 1 None) = Native"
    and c': "map_option count (enter_n ?c1 (Addr 128) 1 None) = Some 1"
    by (simp_all add: DRPPC_ZERO_THRESHOLD_def)
  show ?thesis by (intro conjI a a' b b' s1 s2 c c')
qed

subsection \<open>Cache exhaustion\<close>

lemma reserve_exceeded:
  "guard_boundary cfg a < arena_used e a + sz \<Longrightarrow>
     reserve cfg a sz e = (DRPPC_OKAY, None, flush e)"
  by (simp add: reserve_def allocate_def)

lemma LookupBB_flush: "LookupBB (flush e) addr = None"
  by (simp add: LookupBB_def flush_def)

text \<open>
  C7. Whenever a reservation would breach the guard boundary of the native or of the
  intermediate arena, the engine performs the full flush and goes on: the status is
  \<^verbatim>\<open>DRPPC_OKAY\<close>, no block descriptor is left, both arenas are empty, the lookup index
  has no entry, every address is in the uncompiled state, and the next entry of any block
  is a first encounter. A null result of the host's allocation hook, by contrast, ends
  initialisation with \<^verbatim>\<open>DRPPC_OUT_OF_MEMORY\<close>.
\<close>

theorem capacity_exceeded_flushes:
  "(guard_boundary cfg a < arena_used e a + sz \<longrightarrow>
      fst (reserve cfg a sz e) = DRPPC_OKAY
      \<and> bb_store (snd (snd (reserve cfg a sz e))) = []
      \<and> native_used (snd (snd (reserve cfg a sz e))) = 0
      \<and> intermediate_used (snd (snd (reserve cfg a sz e))) = 0
      \<and> lookup_index (snd (snd (reserve cfg a sz e))) = Map.empty
      \<and> (\<forall>addr. LookupBB (snd (snd (reserve cfg a sz e))) addr = None)
      \<and> (\<forall>addr. state_of (LookupBB (snd (snd (reserve cfg a sz e))) addr) = Uncompiled)
      \<and> (\<forall>addr. enter_block cfg code (LookupBB (snd (snd (reserve cfg a sz e))) addr)
            = enter_block cfg code None))
   \<and> (Alloc cfg (native_cache_size cfg) = NULL \<or> Alloc cfg (intermediate_cache_size cfg) = NULL
        \<longrightarrow> drppc_init cfg = Inl DRPPC_OUT_OF_MEMORY)"
proof (intro conjI impI)
  assume "Alloc cfg (native_cache_size cfg) = NULL \<or> Alloc cfg (intermediate_cache_size cfg) = NULL"
  then show "drppc_init cfg = Inl DRPPC_OUT_OF_MEMORY"
    by (auto simp add: drppc_init_def)
next
  assume "guard_boundary cfg a < arena_used e a + sz"
  then have r: "reserve cfg a sz e = (DRPPC_OKAY, None, flush e)"
    by (rule reserve_exceeded)
  show "fst (reserve cfg a sz e) = DRPPC_OKAY"
    "bb_store (snd (snd (reserve cfg a sz e))) = []"
    "native_used (snd (snd (reserve cfg a sz e))) = 0"
    "intermediate_used (snd (snd (reserve cfg a sz e))) = 0"
    "lookup_index (snd (snd (reserve cfg a sz e))) = Map.empty"
    by (simp_all add: r flush_def)
  show "\<forall>addr. LookupBB (snd (snd (reserve cfg a sz e))) addr = None"
    by (simp add: r LookupBB_flush)
  show "\<forall>addr. state_of (LookupBB (snd (snd (reserve cfg a sz e))) addr) = Uncompiled"
    by (simp add: r LookupBB_flush state_of_def)
  show "\<forall>addr. enter_block cfg code (LookupBB (snd (snd (reserve cfg a sz e))) addr)
      = enter_block cfg code None"
    by (simp add: r LookupBB_flush)
qed

theorem capacity_exceeded_flushes_witness:
  "reserve \<lparr>interpret_only = False, Alloc = (\<lambda>n. Addr 64), native_cache_size = 4096,
       native_cache_guard_size = 256, intermediate_cache_size = 4096,
       intermediate_cache_guard_size = 256, hot_threshold = 5\<rparr> Native_arena 512
     \<lparr>bb_store = [\<lparr>count = 7, bb_ptr = Addr 64, interp_size = 12, native_size = 40,
          interp_exec_time = 0, native_exec_time = 0\<rparr>],
      lookup_index = [0x100 \<mapsto> 0], native_used = 3500, intermediate_used = 900\<rparr>
   = (DRPPC_OKAY, None,
      \<lparr>bb_store = [], lookup_index = Map.empty, native_used = 0, intermediate_used = 0\<rparr>)
   \<and> drppc_init \<lparr>interpret_only = False, Alloc = (\<lambda>n. NULL), native_cache_size = 4096,
       native_cache_guard_size = 256, intermediate_cache_size = 4096,
       intermediate_cache_guard_size = 256, hot_threshold = 5\<rparr> = Inl DRPPC_OUT_OF_MEMORY"
proof -
  let ?cfg = "\<lparr>interpret_only = False, Alloc = (\<lambda>n. Addr 64), native_cache_size = 4096,
       native_cache_guard_size = 256, intermediate_cache_size = 4096,
       intermediate_cache_guard_size = 256, hot_threshold = 5\<rparr>"
  let ?bad = "\<lparr>interpret_only = False, Alloc = (\<lambda>n. NULL), native_cache_size = 4096,
       native_cache_guard_size = 256, intermediate_cache_size = 4096,
       intermediate_cache_guard_size = 256, hot_threshold = 5\<rparr>"
  let ?e = "\<lparr>bb_store = [\<lparr>count = 7, bb_ptr = Addr 64, interp_size = 12, native_size = 40,
          interp_exec_time = 0, native_exec_time = 0\<rparr>],
      lookup_index = [0x100 \<mapsto> 0], native_used = 3500, intermediate_used = 900\<rparr>"
  have h: "guard_boundary ?cfg Native_arena < arena_used ?e Native_arena + 512"
    by (simp add: guard_boundary_def)
  have o: "Alloc ?bad (native_cache_size ?bad) = NULL
      \<or> Alloc ?bad (intermediate_cache_size ?bad) = NULL"
    by simp
  note t = capacity_exceeded_flushes[of ?cfg Native_arena ?e 512 NULL]
  note u = capacity_exceeded_flushes[of ?bad Native_arena ?e 512 NULL]
  from t h have f: "fst (reserve ?cfg Native_arena 512 ?e) = DRPPC_OKAY"
    "bb_store (snd (snd (reserve ?cfg Native_arena 512 ?e))) = []"
    "native_used (snd (snd (reserve ?cfg Native_arena 512 ?e))) = 0"
    "intermediate_used (snd (snd (reserve ?cfg Native_arena 512 ?e))) = 0"
    "lookup_index (snd (snd (reserve ?cfg Native_arena 512 ?e))) = Map.empty"
    by blast+
  have p: "fst (snd (reserve ?cfg Native_arena 512 ?e)) = None"
    by (simp add: reserve_def allocate_def guard_boundary_def)
  from u o have i: "drppc_init ?bad = Inl DRPPC_OUT_OF_MEMORY" by blast
  have "reserve ?cfg Native_arena 512 ?e
      = (DRPPC_OKAY, None,
         \<lparr>bb_store = [], lookup_index = Map.empty, native_used = 0, intermediate_used = 0\<rparr>)"
    using f p by (cases "reserve ?cfg Native_arena 512 ?e") simp
  with i show ?thesis by (intro conjI)
qed


end
